theory Spec2Isabelle
  imports Main
begin

section \<open>The JSON-RPC request pipeline of \<^verbatim>\<open>a2a/server/apps/jsonrpc/jsonrpc_app.py\<close>\<close>

text \<open>
  A shallow embedding of \<^verbatim>\<open>JSONRPCApplication\<close>: the entry point
  \<^verbatim>\<open>_handle_requests\<close>, the two dispatchers, \<^verbatim>\<open>_create_response\<close>,
  \<^verbatim>\<open>_generate_error_response\<close> and \<^verbatim>\<open>DefaultCallContextBuilder\<close>.
  Python names that start with an underscore lose it (an Isabelle name starts with a letter).
  Exceptions are values (\<open>exc + 'a\<close>, \<open>Inl\<close> the raised exception), log calls and
  \<^verbatim>\<open>traceback.print_exc()\<close> are a list of effects returned next to the result, and an
  async generator is a codatatype, so that a stream may be endless or end in a raise.
\<close>

subsection \<open>JSON values and Python values\<close>

text \<open>
  A JSON value as \<^verbatim>\<open>request.json()\<close> returns it and as a response body carries it.
  Objects are association lists in key order, each key once, as in a Python dict. Numbers
  are integers: no function of the pipeline computes with a number of the body. A JSON text (what
  \<^verbatim>\<open>model_dump_json\<close> returns, what \<^verbatim>\<open>JSONResponse\<close> renders) is represented by
  the value it denotes.
\<close>

datatype json =
    JNull
  | JBool bool
  | JInt int
  | JString string
  | JArray "json list"
  | JObject "(string \<times> json) list"

text \<open>
  A Python value held in a field of a pydantic model, before it is dumped: \<open>PNone\<close> is
  \<^verbatim>\<open>None\<close>, \<open>PModel\<close> a nested model with its fields in declaration order, \<open>PDict\<close> a
  plain \<^verbatim>\<open>dict\<close>.
\<close>

datatype pyvalue =
    PNone
  | PBool bool
  | PInt int
  | PStr string
  | PList "pyvalue list"
  | PDict "(string \<times> pyvalue) list"
  | PModel "(string \<times> pyvalue) list"

text \<open>
  \<^verbatim>\<open>model.model_dump(mode='json', exclude_none=...)\<close> of pydantic: the flag drops the
  fields of a model (at every depth) whose value is \<^verbatim>\<open>None\<close>; the entries of a plain
  dict and the items of a list are kept as they are.
\<close>

fun model_dump :: "bool \<Rightarrow> pyvalue \<Rightarrow> json"
  and dump_list :: "bool \<Rightarrow> pyvalue list \<Rightarrow> json list"
  and dump_items :: "bool \<Rightarrow> (string \<times> pyvalue) list \<Rightarrow> (string \<times> json) list"
  and dump_fields :: "bool \<Rightarrow> (string \<times> pyvalue) list \<Rightarrow> (string \<times> json) list"
where
  "model_dump exclude_none PNone = JNull"
| "model_dump exclude_none (PBool b) = JBool b"
| "model_dump exclude_none (PInt i) = JInt i"
| "model_dump exclude_none (PStr s) = JString s"
| "model_dump exclude_none (PList vs) = JArray (dump_list exclude_none vs)"
| "model_dump exclude_none (PDict kvs) = JObject (dump_items exclude_none kvs)"
| "model_dump exclude_none (PModel fs) = JObject (dump_fields exclude_none fs)"
| "dump_list exclude_none [] = []"
| "dump_list exclude_none (v # vs) = model_dump exclude_none v # dump_list exclude_none vs"
| "dump_items exclude_none [] = []"
| "dump_items exclude_none ((k, v) # kvs) =
     (k, model_dump exclude_none v) # dump_items exclude_none kvs"
| "dump_fields exclude_none [] = []"
| "dump_fields exclude_none ((k, v) # fs) =
     (if exclude_none \<and> v = PNone then dump_fields exclude_none fs
      else (k, model_dump exclude_none v) # dump_fields exclude_none fs)"

text \<open>\<^verbatim>\<open>json.loads\<close>: the Python value of a JSON value; an object becomes a dict.\<close>

fun json_loads :: "json \<Rightarrow> pyvalue"
  and loads_list :: "json list \<Rightarrow> pyvalue list"
  and loads_items :: "(string \<times> json) list \<Rightarrow> (string \<times> pyvalue) list"
where
  "json_loads JNull = PNone"
| "json_loads (JBool b) = PBool b"
| "json_loads (JInt i) = PInt i"
| "json_loads (JString s) = PStr s"
| "json_loads (JArray js) = PList (loads_list js)"
| "json_loads (JObject kvs) = PDict (loads_items kvs)"
| "loads_list [] = []"
| "loads_list (j # js) = json_loads j # loads_list js"
| "loads_items [] = []"
| "loads_items ((k, j) # kvs) = (k, json_loads j) # loads_items kvs"

text \<open>Python truthiness, as the \<^verbatim>\<open>if error_resp.error.data\<close> of the log line reads it.\<close>

fun truthy :: "pyvalue \<Rightarrow> bool" where
  "truthy PNone = False"
| "truthy (PBool b) = b"
| "truthy (PInt i) = (i \<noteq> 0)"
| "truthy (PStr s) = (s \<noteq> [])"
| "truthy (PList vs) = (vs \<noteq> [])"
| "truthy (PDict kvs) = (kvs \<noteq> [])"
| "truthy (PModel fs) = True"

text \<open>The members of a JSON object, and the value under a key (\<open>None\<close>: no such key).\<close>

fun members :: "json \<Rightarrow> (string \<times> json) list" where
  "members (JObject kvs) = kvs"
| "members j = []"

definition json_get :: "json \<Rightarrow> string \<Rightarrow> json option" where
  "json_get j k = map_of (members j) k"

subsection \<open>Exceptions, log records, errors\<close>

text \<open>
  The exceptions the \<^verbatim>\<open>except\<close> clauses of \<^verbatim>\<open>_handle_requests\<close> tell apart, which are
  pairwise unrelated classes: \<^verbatim>\<open>MethodNotImplementedError\<close>,
  \<^verbatim>\<open>json.decoder.JSONDecodeError\<close> with its \<^verbatim>\<open>str(e)\<close>, pydantic's
  \<^verbatim>\<open>ValidationError\<close> with the value of its \<^verbatim>\<open>e.json()\<close>, Starlette's
  \<^verbatim>\<open>HTTPException\<close> with its \<^verbatim>\<open>status_code\<close>, and any other subclass of
  \<^verbatim>\<open>Exception\<close> with its \<^verbatim>\<open>str(e)\<close>. \<open>BaseException\<close> is an exception that is no
  \<^verbatim>\<open>Exception\<close> (\<^verbatim>\<open>asyncio.CancelledError\<close> on cancellation,
  \<^verbatim>\<open>KeyboardInterrupt\<close>, \<^verbatim>\<open>SystemExit\<close>), with the name of its class: no
  \<^verbatim>\<open>except\<close> clause of the file and no \<^verbatim>\<open>contextlib.suppress(Exception)\<close> stops it.
\<close>

datatype exc =
    MethodNotImplementedError
  | JSONDecodeError string
  | ValidationError json
  | HTTPException nat
  | Exception string
  | BaseException string

text \<open>\<^verbatim>\<open>isinstance(e, Exception)\<close>.\<close>

fun isinstance_Exception :: "exc \<Rightarrow> bool" where
  "isinstance_Exception (BaseException name) = False"
| "isinstance_Exception e = True"

text \<open>
  Python's \<^verbatim>\<open>UnicodeDecodeError\<close>, which \<^verbatim>\<open>json.loads\<close> raises for body bytes that
  are no text in the encoding it detects: a \<^verbatim>\<open>ValueError\<close> that is no
  \<^verbatim>\<open>JSONDecodeError\<close>, so one of the other subclasses of \<^verbatim>\<open>Exception\<close>.
\<close>

definition UnicodeDecodeError :: "string \<Rightarrow> exc" where
  "UnicodeDecodeError str_e = Exception str_e"

definition HTTP_413_REQUEST_ENTITY_TOO_LARGE :: nat where
  "HTTP_413_REQUEST_ENTITY_TOO_LARGE = 413"

datatype request_id = IdStr string | IdInt int

datatype log_level = ERROR | WARNING

text \<open>
  A log line is kept as its format arguments, not as the formatted text:
  \<open>RequestError request_id code message data\<close> is the line of
  \<^verbatim>\<open>_generate_error_response\<close>, whose \<open>data\<close> part is there when the data is truthy.
\<close>

datatype log_message =
    RequestError "request_id option" int string "pyvalue option"
  | UnhandledException string
  | UnhandledValidatedRequestType string

datatype effect =
    Log log_level log_message
  | PrintExc

text \<open>
  The fields every error model has (\<^verbatim>\<open>JSONRPCError\<close> and each member of the
  \<^verbatim>\<open>A2AError\<close> union): \<^verbatim>\<open>code\<close>, \<^verbatim>\<open>message\<close>, \<^verbatim>\<open>data\<close>.
\<close>

record jsonrpc_error =
  code :: int
  message :: string
  data :: pyvalue

text \<open>
  The members of the \<^verbatim>\<open>A2AError\<close> union, written as their constructor calls: the
  \<^verbatim>\<open>message=\<close> keyword (\<open>None\<close>: not given, the class default applies) and the
  \<^verbatim>\<open>data=\<close> keyword (default \<^verbatim>\<open>None\<close>). \<open>OtherA2AError\<close> stands for the members
  this file never constructs (task not found, and so on), by their fields.
\<close>

datatype a2a_error_root =
    JSONParseError "string option" pyvalue
  | InvalidRequestError "string option" pyvalue
  | UnsupportedOperationError "string option" pyvalue
  | InternalError "string option" pyvalue
  | OtherA2AError int string pyvalue

text \<open>
  Modelled from the spec: the error classes are declared in \<^verbatim>\<open>a2a.types\<close>, which is not
  among the sources. The codes \<open>-32700\<close> (parse error) and \<open>-32600\<close> (invalid request)
  are the ones the specification's scenarios give; \<open>-32004\<close>, \<open>-32603\<close> and the default
  messages are those of the A2A protocol's error table, and no statement below depends on
  them beyond the four codes being different.
\<close>

fun root_fields :: "a2a_error_root \<Rightarrow> jsonrpc_error" where
  "root_fields (JSONParseError m d) =
     \<lparr>code = - 32700, message = (case m of None \<Rightarrow> ''Invalid JSON payload'' | Some s \<Rightarrow> s),
      data = d\<rparr>"
| "root_fields (InvalidRequestError m d) =
     \<lparr>code = - 32600,
      message = (case m of None \<Rightarrow> ''Request payload validation error'' | Some s \<Rightarrow> s),
      data = d\<rparr>"
| "root_fields (UnsupportedOperationError m d) =
     \<lparr>code = - 32004,
      message = (case m of None \<Rightarrow> ''This operation is not supported'' | Some s \<Rightarrow> s),
      data = d\<rparr>"
| "root_fields (InternalError m d) =
     \<lparr>code = - 32603, message = (case m of None \<Rightarrow> ''Internal error'' | Some s \<Rightarrow> s),
      data = d\<rparr>"
| "root_fields (OtherA2AError c m d) = \<lparr>code = c, message = m, data = d\<rparr>"

text \<open>
  The second parameter of \<^verbatim>\<open>_generate_error_response\<close>, of type
  \<^verbatim>\<open>JSONRPCError | A2AError\<close>: a plain \<^verbatim>\<open>JSONRPCError\<close>, or the root model
  \<^verbatim>\<open>A2AError(root=...)\<close>.
\<close>

datatype error_arg =
    JSONRPCError jsonrpc_error
  | A2AError a2a_error_root

fun isinstance_InternalError :: "a2a_error_root \<Rightarrow> bool" where
  "isinstance_InternalError (InternalError m d) = True"
| "isinstance_InternalError r = False"

subsection \<open>Response models\<close>

text \<open>
  Modelled from the spec: the response models are declared in \<^verbatim>\<open>a2a.types\<close>, which is not
  among the sources. \<^verbatim>\<open>JSONRPCErrorResponse\<close> and a success response
  (\<^verbatim>\<open>GetTaskSuccessResponse\<close> and its siblings) have the fields of the wire shapes of
  section 6, \<open>{id, error: {code, message, data?}}\<close> and \<open>{id, result}\<close>; the \<open>result\<close>
  is the payload model (a task, a message, an event). A response root model
  (\<^verbatim>\<open>GetTaskResponse\<close>, \<^verbatim>\<open>SendStreamingMessageResponse\<close>, ...) holds one or the
  other as its \<^verbatim>\<open>root\<close>.
\<close>

record error_response =
  er_id :: "request_id option"
  er_error :: jsonrpc_error

record success_response =
  sr_id :: "request_id option"
  sr_result :: pyvalue

datatype response_root =
    ErrorRoot error_response
  | SuccessRoot success_response

fun id_value :: "request_id option \<Rightarrow> pyvalue" where
  "id_value None = PNone"
| "id_value (Some (IdStr s)) = PStr s"
| "id_value (Some (IdInt i)) = PInt i"

text \<open>
  Modelled from the spec: the models as field lists, which is what \<^verbatim>\<open>model_dump\<close> walks,
  in the order of the wire shapes of section 6. As a JSON-RPC 2.0 response, every response
  model also has the constant field \<^verbatim>\<open>jsonrpc = '2.0'\<close>.
\<close>

definition error_fields :: "jsonrpc_error \<Rightarrow> pyvalue" where
  "error_fields e = PModel [(''code'', PInt (code e)), (''message'', PStr (message e)),
     (''data'', data e)]"

definition error_response_model :: "error_response \<Rightarrow> pyvalue" where
  "error_response_model r = PModel [(''id'', id_value (er_id r)), (''jsonrpc'', PStr ''2.0''),
     (''error'', error_fields (er_error r))]"

definition success_response_model :: "success_response \<Rightarrow> pyvalue" where
  "success_response_model r = PModel [(''id'', id_value (sr_id r)), (''jsonrpc'', PStr ''2.0''),
     (''result'', sr_result r)]"

fun root_model :: "response_root \<Rightarrow> pyvalue" where
  "root_model (ErrorRoot r) = error_response_model r"
| "root_model (SuccessRoot r) = success_response_model r"

subsection \<open>Async generators and transport responses\<close>

text \<open>
  An async generator, by what its next \<^verbatim>\<open>__anext__\<close> does: it yields an item and goes
  on, it stops (\<^verbatim>\<open>StopAsyncIteration\<close>), or it raises. The type is coinductive: a
  generator need not ever stop.
\<close>

codatatype 'a async_generator =
    Yield 'a "'a async_generator"
  | StopAsyncIteration
  | Raise exc

text \<open>One frame of the event stream: the dict \<^verbatim>\<open>{'data': <JSON text>}\<close>.\<close>

type_synonym frame = "(string \<times> json) list"

text \<open>
  Starlette's \<^verbatim>\<open>JSONResponse(content, status_code)\<close>, whose status code defaults to
  200, and \<^verbatim>\<open>EventSourceResponse(generator)\<close>.
\<close>

datatype response =
    JSONResponse json nat
  | EventSourceResponse "frame async_generator"


text \<open>
  What a handler method hands to \<^verbatim>\<open>_create_response\<close> (\<^verbatim>\<open>handler_result: Any\<close>,
  initially \<^verbatim>\<open>None\<close>): nothing, an async generator of
  \<^verbatim>\<open>SendStreamingMessageResponse\<close> items, a \<^verbatim>\<open>JSONRPCErrorResponse\<close>, or a response
  root model.
\<close>

datatype handler_result =
    NoneResult
  | AsyncGenerator "response_root async_generator"
  | ErrorResponse error_response
  | RootModel response_root

subsection \<open>Requests and the envelope decoder\<close>

text \<open>The nine request classes of the \<^verbatim>\<open>A2ARequest\<close> union.\<close>

datatype request_class =
    SendMessageRequest
  | SendStreamingMessageRequest
  | CancelTaskRequest
  | GetTaskRequest
  | TaskResubscriptionRequest
  | SetTaskPushNotificationConfigRequest
  | GetTaskPushNotificationConfigRequest
  | ListTaskPushNotificationConfigRequest
  | DeleteTaskPushNotificationConfigRequest

text \<open>\<^verbatim>\<open>type(request_obj).__name__\<close>.\<close>

fun class_name :: "request_class \<Rightarrow> string" where
  "class_name SendMessageRequest = ''SendMessageRequest''"
| "class_name SendStreamingMessageRequest = ''SendStreamingMessageRequest''"
| "class_name CancelTaskRequest = ''CancelTaskRequest''"
| "class_name GetTaskRequest = ''GetTaskRequest''"
| "class_name TaskResubscriptionRequest = ''TaskResubscriptionRequest''"
| "class_name SetTaskPushNotificationConfigRequest = ''SetTaskPushNotificationConfigRequest''"
| "class_name GetTaskPushNotificationConfigRequest = ''GetTaskPushNotificationConfigRequest''"
| "class_name ListTaskPushNotificationConfigRequest = ''ListTaskPushNotificationConfigRequest''"
| "class_name DeleteTaskPushNotificationConfigRequest =
     ''DeleteTaskPushNotificationConfigRequest''"

text \<open>
  A validated request object: its class, its \<open>id\<close> and its parameters. \<open>A2ARequest\<close> is
  the root model around it; \<open>root\<close> is \<^verbatim>\<open>a2a_request.root\<close>.
\<close>

record request_obj =
  req_class :: request_class
  req_id :: "request_id option"
  req_params :: "json option"

datatype a2a_request = A2ARequest (root: request_obj)

text \<open>
  Modelled from the spec: the request classes of \<^verbatim>\<open>a2a.types\<close> are not among the
  sources, so what their validation leaves open in the specification is a parameter:
  \<open>params_ok\<close> says whether the parameters of a body fit a variant (section 3: each
  variant carries its own parameter shape), \<open>errors_json\<close> is the validation detail
  (\<^verbatim>\<open>e.json()\<close>) for a rejected body.
\<close>

record schema =
  params_ok :: "request_class \<Rightarrow> json option \<Rightarrow> bool"
  errors_json :: "json \<Rightarrow> json"

text \<open>
  Modelled from the spec: the method discriminator of each of the nine variants (the
  \<^verbatim>\<open>method\<close> literals of \<^verbatim>\<open>a2a.types\<close>, not among the sources). The names are those
  of the docstrings of the two dispatchers and of the specification's scenarios.
\<close>

definition method_table :: "(string \<times> request_class) list" where
  "method_table =
    [(''message/send'', SendMessageRequest),
     (''message/stream'', SendStreamingMessageRequest),
     (''tasks/cancel'', CancelTaskRequest),
     (''tasks/get'', GetTaskRequest),
     (''tasks/resubscribe'', TaskResubscriptionRequest),
     (''tasks/pushNotificationConfig/set'', SetTaskPushNotificationConfigRequest),
     (''tasks/pushNotificationConfig/get'', GetTaskPushNotificationConfigRequest),
     (''tasks/pushNotificationConfig/list'', ListTaskPushNotificationConfigRequest),
     (''tasks/pushNotificationConfig/delete'', DeleteTaskPushNotificationConfigRequest)]"

text \<open>
  Modelled from the spec: the \<open>id\<close> of an envelope (section 3:
  \<open>id: string | integer | null\<close>) is absent or null, a string, or an integer;
  \<open>None\<close>: the body has an id of another type.
\<close>

fun id_field :: "json option \<Rightarrow> request_id option option" where
  "id_field None = Some None"
| "id_field (Some JNull) = Some None"
| "id_field (Some (JString s)) = Some (Some (IdStr s))"
| "id_field (Some (JInt i)) = Some (Some (IdInt i))"
| "id_field (Some j) = None"

text \<open>
  Modelled from the spec: the method discriminator of a body, when the body is an object
  with a \<open>method\<close> member that is a string.
\<close>

fun discriminator :: "json \<Rightarrow> string option" where
  "discriminator (JObject kvs) =
     (case map_of kvs ''method'' of Some (JString m) \<Rightarrow> Some m | _ \<Rightarrow> None)"
| "discriminator j = None"

text \<open>
  Modelled from the spec: \<^verbatim>\<open>A2ARequest.model_validate\<close> is pydantic's validation against
  the request classes of \<^verbatim>\<open>a2a.types\<close>, which are not among the sources. The
  specification's envelope decoder (section 4.1, with the envelope of section 3) is followed:
  a well-formed body that has an unknown or missing method discriminator, an \<open>id\<close> of
  another type, or parameters that do not fit the variant fails with a schema validation
  failure (pydantic's \<^verbatim>\<open>ValidationError\<close>); every other body decodes to exactly one of
  the nine variants.
\<close>

definition model_validate :: "schema \<Rightarrow> json \<Rightarrow> exc + a2a_request" where
  "model_validate S body =
     (case discriminator body of
        None \<Rightarrow> Inl (ValidationError (errors_json S body))
      | Some m \<Rightarrow>
          (case map_of method_table m of
             None \<Rightarrow> Inl (ValidationError (errors_json S body))
           | Some c \<Rightarrow>
               (case id_field (json_get body ''id'') of
                  None \<Rightarrow> Inl (ValidationError (errors_json S body))
                | Some i \<Rightarrow>
                    if params_ok S c (json_get body ''params'')
                    then Inr (A2ARequest \<lparr>req_class = c, req_id = i,
                                req_params = json_get body ''params''\<rparr>)
                    else Inl (ValidationError (errors_json S body)))))"

subsection \<open>The transport request and the call context\<close>

text \<open>
  What the pipeline reads of a Starlette \<^verbatim>\<open>Request\<close>: the outcome of
  \<^verbatim>\<open>await request.json()\<close> (the parsed body, or what the call raises: a
  \<^verbatim>\<open>JSONDecodeError\<close> for a text that is no JSON, a \<^verbatim>\<open>UnicodeDecodeError\<close> for
  bytes that are no text, an \<^verbatim>\<open>HTTPException\<close> of the transport), the outcomes of \<^verbatim>\<open>request.user\<close> and \<^verbatim>\<open>request.auth\<close> (which raise when
  no authentication middleware is installed; the credentials are kept as their scopes), and
  the headers.
\<close>

record base_user =
  is_authenticated :: bool
  display_name :: string

record request =
  request_json :: "exc + json"
  request_user :: "exc + base_user"
  request_auth :: "exc + string list"
  request_headers :: "(string \<times> string) list"

datatype a2a_user =
    UnauthenticatedUser
  | StarletteUserProxy base_user

datatype state_value =
    AuthValue "string list"
  | HeadersValue "(string \<times> string) list"

record server_call_context =
  user :: a2a_user
  state :: "(string \<times> state_value) list"

text \<open>
  \<^verbatim>\<open>dict(request.headers)\<close>: one entry for each header name, with the first value the
  headers hold for it.
\<close>

fun dict_from :: "string list \<Rightarrow> (string \<times> string) list \<Rightarrow> (string \<times> string) list" where
  "dict_from seen [] = []"
| "dict_from seen ((k, v) # kvs) =
     (if k \<in> set seen then dict_from seen kvs else (k, v) # dict_from (k # seen) kvs)"

text \<open>
  \<^verbatim>\<open>DefaultCallContextBuilder.build\<close>. The \<^verbatim>\<open>contextlib.suppress(Exception)\<close> block is
  left at the first of its two statements that raises, with the assignments made so far;
  what is raised is suppressed when it is an \<^verbatim>\<open>Exception\<close> and leaves \<^verbatim>\<open>build\<close>
  otherwise.
\<close>

definition DefaultCallContextBuilder_build :: "request \<Rightarrow> exc + server_call_context" where
  "DefaultCallContextBuilder_build request =
     (case (case request_user request of
              Inl e \<Rightarrow> if isinstance_Exception e then Inr (UnauthenticatedUser, []) else Inl e
            | Inr u \<Rightarrow>
                (case request_auth request of
                   Inl e \<Rightarrow> if isinstance_Exception e then Inr (StarletteUserProxy u, [])
                            else Inl e
                 | Inr a \<Rightarrow> Inr (StarletteUserProxy u, [(''auth'', AuthValue a)]))) of
        Inl e \<Rightarrow> Inl e
      | Inr (user0, state0) \<Rightarrow>
          Inr \<lparr>user = user0,
               state = state0 @ [(''headers'',
                                  HeadersValue (dict_from [] (request_headers request)))]\<rparr>)"

subsection \<open>The application and its handler\<close>

text \<open>
  The methods of \<^verbatim>\<open>JSONRPCHandler\<close> the dispatchers call, each with the request object
  and the call context. The class is not among the sources, so the methods are parameters: a
  call returns a handler result or raises.
\<close>

type_synonym handler_method = "request_obj \<Rightarrow> server_call_context \<Rightarrow> exc + handler_result"

record jsonrpc_handler =
  on_message_send :: handler_method
  on_message_send_stream :: handler_method
  on_cancel_task :: handler_method
  on_get_task :: handler_method
  on_resubscribe_to_task :: handler_method
  set_push_notification_config :: handler_method
  get_push_notification_config :: handler_method
  list_push_notification_config :: handler_method
  delete_push_notification_config :: handler_method

text \<open>
  \<^verbatim>\<open>JSONRPCApplication\<close>, by the two attributes the request pipeline reads:
  \<^verbatim>\<open>self.handler\<close> and \<^verbatim>\<open>self._context_builder\<close> (a \<^verbatim>\<open>CallContextBuilder\<close>, by its
  \<^verbatim>\<open>build\<close> method).
\<close>

record jsonrpc_application =
  handler :: jsonrpc_handler
  context_builder :: "request \<Rightarrow> exc + server_call_context"

subsection \<open>Rendering\<close>

text \<open>
  \<^verbatim>\<open>_generate_error_response\<close>: the error response model, the log line with its level,
  and the \<^verbatim>\<open>JSONResponse\<close> of the dump with \<^verbatim>\<open>exclude_none=True\<close> and status 200.
\<close>

definition generate_error_response ::
  "request_id option \<Rightarrow> error_arg \<Rightarrow> effect list \<times> response" where
  "generate_error_response request_id error =
     (let error_resp = \<lparr>er_id = request_id,
                         er_error = (case error of JSONRPCError e \<Rightarrow> e
                                     | A2AError r \<Rightarrow> root_fields r)\<rparr>;
          log_level = (case error of
                         JSONRPCError e \<Rightarrow> ERROR
                       | A2AError r \<Rightarrow> if isinstance_InternalError r then ERROR else WARNING)
      in ([Log log_level
             (RequestError request_id (code (er_error error_resp))
                (message (er_error error_resp))
                (if truthy (data (er_error error_resp))
                 then Some (data (er_error error_resp)) else None))],
          JSONResponse (model_dump True (error_response_model error_resp)) 200))"

text \<open>
  The \<^verbatim>\<open>event_generator\<close> inside \<^verbatim>\<open>_create_response\<close>: for each item of the stream,
  one frame with the item's root dumped with \<^verbatim>\<open>exclude_none=True\<close>. When the stream
  stops, the loop ends and so does the generator; when the stream raises, the exception
  leaves the loop and the generator raises it.
\<close>

definition frame_of :: "response_root \<Rightarrow> frame" where
  "frame_of item = [(''data'', model_dump True (root_model item))]"

primcorec event_generator :: "response_root async_generator \<Rightarrow> frame async_generator" where
  "event_generator stream =
     (case stream of
        Yield item rest \<Rightarrow> Yield (frame_of item) (event_generator rest)
      | StopAsyncIteration \<Rightarrow> StopAsyncIteration
      | Raise e \<Rightarrow> Raise e)"

text \<open>
  \<^verbatim>\<open>_create_response\<close>, with its \<^verbatim>\<open>isinstance\<close> tests in order. On \<^verbatim>\<open>None\<close> the last
  branch reads \<^verbatim>\<open>handler_result.root\<close> and raises an \<^verbatim>\<open>AttributeError\<close>, whose text
  is written here without its quotation marks.
\<close>

fun create_response :: "handler_result \<Rightarrow> exc + response" where
  "create_response (AsyncGenerator stream) = Inr (EventSourceResponse (event_generator stream))"
| "create_response (ErrorResponse r) =
     Inr (JSONResponse (model_dump True (error_response_model r)) 200)"
| "create_response (RootModel r) = Inr (JSONResponse (model_dump True (root_model r)) 200)"
| "create_response NoneResult =
     Inl (Exception ''NoneType object has no attribute root'')"

subsection \<open>Dispatch\<close>

text \<open>\<^verbatim>\<open>_process_streaming_request\<close>: an \<^verbatim>\<open>if\<close>/\<^verbatim>\<open>elif\<close> over the two streaming classes.\<close>

definition process_streaming_request ::
  "jsonrpc_application \<Rightarrow> request_id option \<Rightarrow> a2a_request \<Rightarrow> server_call_context
     \<Rightarrow> effect list \<times> (exc + response)" where
  "process_streaming_request app request_id a2a_request context =
     (let request_obj = root a2a_request;
          called =
            (if req_class request_obj = SendStreamingMessageRequest
             then on_message_send_stream (handler app) request_obj context
             else if req_class request_obj = TaskResubscriptionRequest
             then on_resubscribe_to_task (handler app) request_obj context
             else Inr NoneResult)
      in case called of
           Inl e \<Rightarrow> ([], Inl e)
         | Inr handler_result \<Rightarrow> ([], create_response handler_result))"

text \<open>
  \<^verbatim>\<open>_process_non_streaming_request\<close>: the \<^verbatim>\<open>match\<close> over the seven unary classes, and
  its default case, which logs and builds an unsupported-operation error response.
\<close>

definition process_non_streaming_request ::
  "jsonrpc_application \<Rightarrow> request_id option \<Rightarrow> a2a_request \<Rightarrow> server_call_context
     \<Rightarrow> effect list \<times> (exc + response)" where
  "process_non_streaming_request app request_id a2a_request context =
     (let request_obj = root a2a_request;
          (logged, called) =
            (case req_class request_obj of
               SendMessageRequest \<Rightarrow> ([], on_message_send (handler app) request_obj context)
             | CancelTaskRequest \<Rightarrow> ([], on_cancel_task (handler app) request_obj context)
             | GetTaskRequest \<Rightarrow> ([], on_get_task (handler app) request_obj context)
             | SetTaskPushNotificationConfigRequest \<Rightarrow>
                 ([], set_push_notification_config (handler app) request_obj context)
             | GetTaskPushNotificationConfigRequest \<Rightarrow>
                 ([], get_push_notification_config (handler app) request_obj context)
             | ListTaskPushNotificationConfigRequest \<Rightarrow>
                 ([], list_push_notification_config (handler app) request_obj context)
             | DeleteTaskPushNotificationConfigRequest \<Rightarrow>
                 ([], delete_push_notification_config (handler app) request_obj context)
             | _ \<Rightarrow>
                 ([Log ERROR (UnhandledValidatedRequestType
                                (class_name (req_class request_obj)))],
                  Inr (ErrorResponse
                         \<lparr>er_id = request_id,
                          er_error = root_fields
                            (UnsupportedOperationError
                               (Some (''Request type '' @ class_name (req_class request_obj)
                                      @ '' is unknown.'')) PNone)\<rparr>)))
      in case called of
           Inl e \<Rightarrow> (logged, Inl e)
         | Inr handler_result \<Rightarrow> (logged, create_response handler_result))"

subsection \<open>The entry point\<close>

text \<open>
  The body of the \<^verbatim>\<open>try\<close> statement of \<^verbatim>\<open>_handle_requests\<close>: the value of the variable
  \<^verbatim>\<open>request_id\<close> when the body is left, the effects, and the response returned or the
  exception raised. \<^verbatim>\<open>request_id\<close> is \<^verbatim>\<open>None\<close> until the request has been read,
  validated and given its context.
\<close>

definition try_body ::
  "schema \<Rightarrow> jsonrpc_application \<Rightarrow> request
     \<Rightarrow> request_id option \<times> effect list \<times> (exc + response)" where
  "try_body S app request =
     (case request_json request of
        Inl e \<Rightarrow> (None, [], Inl e)
      | Inr body \<Rightarrow>
          (case model_validate S body of
             Inl e \<Rightarrow> (None, [], Inl e)
           | Inr a2a_request \<Rightarrow>
               (case context_builder app request of
                  Inl e \<Rightarrow> (None, [], Inl e)
                | Inr call_context \<Rightarrow>
                    (let request_id = req_id (root a2a_request);
                         request_obj = root a2a_request
                     in if req_class request_obj = TaskResubscriptionRequest
                           \<or> req_class request_obj = SendStreamingMessageRequest
                        then (request_id,
                              process_streaming_request app request_id a2a_request call_context)
                        else (request_id,
                              process_non_streaming_request app request_id a2a_request
                                call_context)))))"

text \<open>
  The \<^verbatim>\<open>except\<close> clauses, in order. Each prints the traceback where the source does; the
  \<^verbatim>\<open>HTTPException\<close> clause answers status 413 and raises every other one again; the last
  clause, \<^verbatim>\<open>except Exception\<close>, logs the exception before it answers. An exception that
  is no \<^verbatim>\<open>Exception\<close> matches no clause and leaves the function.
\<close>

fun except_clauses :: "request_id option \<Rightarrow> exc \<Rightarrow> effect list \<times> (exc + response)" where
  "except_clauses request_id MethodNotImplementedError =
     (let (logged, resp) =
            generate_error_response request_id (A2AError (UnsupportedOperationError None PNone))
      in (PrintExc # logged, Inr resp))"
| "except_clauses request_id (JSONDecodeError str_e) =
     (let (logged, resp) =
            generate_error_response None (A2AError (JSONParseError (Some str_e) PNone))
      in (PrintExc # logged, Inr resp))"
| "except_clauses request_id (ValidationError e_json) =
     (let (logged, resp) =
            generate_error_response request_id
              (A2AError (InvalidRequestError None (json_loads e_json)))
      in (PrintExc # logged, Inr resp))"
| "except_clauses request_id (HTTPException status_code) =
     (if status_code = HTTP_413_REQUEST_ENTITY_TOO_LARGE
      then (let (logged, resp) =
                  generate_error_response request_id
                    (A2AError (InvalidRequestError (Some ''Payload too large'') PNone))
            in (logged, Inr resp))
      else ([], Inl (HTTPException status_code)))"
| "except_clauses request_id (Exception str_e) =
     (let (logged, resp) =
            generate_error_response request_id (A2AError (InternalError (Some str_e) PNone))
      in (Log ERROR (UnhandledException str_e) # PrintExc # logged, Inr resp))"
| "except_clauses request_id (BaseException name) = ([], Inl (BaseException name))"

text \<open>\<^verbatim>\<open>_handle_requests\<close>: the effects, and the response returned or the exception raised.\<close>

definition handle_requests ::
  "schema \<Rightarrow> jsonrpc_application \<Rightarrow> request \<Rightarrow> effect list \<times> (exc + response)" where
  "handle_requests S app request =
     (case try_body S app request of
        (request_id, logged, Inr resp) \<Rightarrow> (logged, Inr resp)
      | (request_id, logged, Inl e) \<Rightarrow>
          (let (logged', outcome) = except_clauses request_id e
           in (logged @ logged', outcome)))"

subsection \<open>Notions the properties are stated with\<close>

text \<open>
  The routing table the two dispatchers implement: the handler method of each request class.
  It is compared with the code in \<open>try_body_decoded\<close> below.
\<close>

fun routed :: "jsonrpc_handler \<Rightarrow> request_class \<Rightarrow> handler_method" where
  "routed h SendMessageRequest = on_message_send h"
| "routed h SendStreamingMessageRequest = on_message_send_stream h"
| "routed h CancelTaskRequest = on_cancel_task h"
| "routed h GetTaskRequest = on_get_task h"
| "routed h TaskResubscriptionRequest = on_resubscribe_to_task h"
| "routed h SetTaskPushNotificationConfigRequest = set_push_notification_config h"
| "routed h GetTaskPushNotificationConfigRequest = get_push_notification_config h"
| "routed h ListTaskPushNotificationConfigRequest = list_push_notification_config h"
| "routed h DeleteTaskPushNotificationConfigRequest = delete_push_notification_config h"

fun streaming_class :: "request_class \<Rightarrow> bool" where
  "streaming_class SendStreamingMessageRequest = True"
| "streaming_class TaskResubscriptionRequest = True"
| "streaming_class c = False"

fun is_async_generator :: "handler_result \<Rightarrow> bool" where
  "is_async_generator (AsyncGenerator stream) = True"
| "is_async_generator r = False"

fun is_event_stream :: "exc + response \<Rightarrow> bool" where
  "is_event_stream (Inr (EventSourceResponse g)) = True"
| "is_event_stream outcome = False"

text \<open>A JSON response of status 200: one \<^verbatim>\<open>application/json\<close> body.\<close>

fun is_json_body :: "exc + response \<Rightarrow> bool" where
  "is_json_body (Inr (JSONResponse content status_code)) = (status_code = 200)"
| "is_json_body outcome = False"

text \<open>The error code a JSON response body carries, when it carries an error.\<close>

fun error_code :: "exc + response \<Rightarrow> int option" where
  "error_code (Inr (JSONResponse content status_code)) =
     (case json_get content ''error'' of
        Some e \<Rightarrow> (case json_get e ''code'' of Some (JInt c) \<Rightarrow> Some c | _ \<Rightarrow> None)
      | None \<Rightarrow> None)"
| "error_code outcome = None"

text \<open>The levels of the request-error log lines among some effects, in order.\<close>

fun request_error_levels :: "effect list \<Rightarrow> log_level list" where
  "request_error_levels [] = []"
| "request_error_levels (Log l (RequestError i c m d) # fx) = l # request_error_levels fx"
| "request_error_levels (x # fx) = request_error_levels fx"

text \<open>
  A consumer's view of an async generator: the items it gets from at most \<open>n\<close> calls of
  \<^verbatim>\<open>__anext__\<close>, and what the generator has done by the call after them: it is still
  open, it has stopped, or it has raised.
\<close>

datatype ending = Open | Closed | Failed exc

fun emitted :: "nat \<Rightarrow> 'a async_generator \<Rightarrow> 'a list" where
  "emitted 0 g = []"
| "emitted (Suc n) g = (case g of Yield x rest \<Rightarrow> x # emitted n rest | _ \<Rightarrow> [])"

fun ending_after :: "nat \<Rightarrow> 'a async_generator \<Rightarrow> ending" where
  "ending_after 0 g =
     (case g of Yield x rest \<Rightarrow> Open | StopAsyncIteration \<Rightarrow> Closed | Raise e \<Rightarrow> Failed e)"
| "ending_after (Suc n) g =
     (case g of Yield x rest \<Rightarrow> ending_after n rest | StopAsyncIteration \<Rightarrow> Closed
      | Raise e \<Rightarrow> Failed e)"

text \<open>
  A Python value with the \<^verbatim>\<open>None\<close>-valued fields of its models left out, at every depth,
  and the test that a value has such a field. This is the reading of ``serialized with all
  None-valued fields omitted'' that \<^verbatim>\<open>exclude_none=True\<close> is compared with.
\<close>

fun omit_none_fields :: "pyvalue \<Rightarrow> pyvalue"
  and omit_list :: "pyvalue list \<Rightarrow> pyvalue list"
  and omit_items :: "(string \<times> pyvalue) list \<Rightarrow> (string \<times> pyvalue) list"
  and omit_fields :: "(string \<times> pyvalue) list \<Rightarrow> (string \<times> pyvalue) list"
where
  "omit_none_fields (PList vs) = PList (omit_list vs)"
| "omit_none_fields (PDict kvs) = PDict (omit_items kvs)"
| "omit_none_fields (PModel fs) = PModel (omit_fields fs)"
| "omit_none_fields v = v"
| "omit_list [] = []"
| "omit_list (v # vs) = omit_none_fields v # omit_list vs"
| "omit_items [] = []"
| "omit_items ((k, v) # kvs) = (k, omit_none_fields v) # omit_items kvs"
| "omit_fields [] = []"
| "omit_fields ((k, v) # fs) =
     (if v = PNone then omit_fields fs else (k, omit_none_fields v) # omit_fields fs)"

fun has_none_field :: "pyvalue \<Rightarrow> bool"
  and list_has_none_field :: "pyvalue list \<Rightarrow> bool"
  and items_have_none_field :: "(string \<times> pyvalue) list \<Rightarrow> bool"
  and fields_have_none :: "(string \<times> pyvalue) list \<Rightarrow> bool"
where
  "has_none_field (PList vs) = list_has_none_field vs"
| "has_none_field (PDict kvs) = items_have_none_field kvs"
| "has_none_field (PModel fs) = fields_have_none fs"
| "has_none_field v = False"
| "list_has_none_field [] = False"
| "list_has_none_field (v # vs) = (has_none_field v \<or> list_has_none_field vs)"
| "items_have_none_field [] = False"
| "items_have_none_field ((k, v) # kvs) = (has_none_field v \<or> items_have_none_field kvs)"
| "fields_have_none [] = False"
| "fields_have_none ((k, v) # fs) = (v = PNone \<or> has_none_field v \<or> fields_have_none fs)"

subsection \<open>A deployment and some requests\<close>

text \<open>
  A schema that asks every request for parameters, a handler whose unary methods answer
  with a task and whose streaming methods yield three events, and requests without
  authentication middleware. The bodies are the specification's scenarios.
\<close>

definition example_schema :: schema where
  "example_schema =
     \<lparr>params_ok = (\<lambda>c p. p \<noteq> None),
      errors_json = (\<lambda>body. JArray [JObject [(''type'', JString ''invalid''),
                                              (''input'', body)]])\<rparr>"

definition found_task :: handler_method where
  "found_task r ctx =
     Inr (RootModel (SuccessRoot
       \<lparr>sr_id = req_id r,
        sr_result = PModel [(''id'', PStr ''t1''), (''contextId'', PNone),
                            (''kind'', PStr ''task'')]\<rparr>))"

definition task_not_found :: handler_method where
  "task_not_found r ctx =
     Inr (RootModel (ErrorRoot
       \<lparr>er_id = req_id r,
        er_error = root_fields (OtherA2AError (- 32001) ''Task not found'' PNone)\<rparr>))"

definition three_events :: "request_id option \<Rightarrow> response_root async_generator" where
  "three_events i =
     Yield (SuccessRoot \<lparr>sr_id = i, sr_result = PModel [(''n'', PInt 1), (''final'', PNone)]\<rparr>)
    (Yield (SuccessRoot \<lparr>sr_id = i, sr_result = PModel [(''n'', PInt 2), (''final'', PNone)]\<rparr>)
    (Yield (SuccessRoot \<lparr>sr_id = i, sr_result = PModel [(''n'', PInt 3),
                                                          (''final'', PBool True)]\<rparr>)
     StopAsyncIteration))"

definition streams_three :: handler_method where
  "streams_three r ctx = Inr (AsyncGenerator (three_events (req_id r)))"

definition not_implemented :: handler_method where
  "not_implemented r ctx = Inl MethodNotImplementedError"

definition breaks :: handler_method where
  "breaks r ctx = Inl (Exception ''database is down'')"

definition forbids :: handler_method where
  "forbids r ctx = Inl (HTTPException 403)"

definition cancelled :: handler_method where
  "cancelled r ctx = Inl (BaseException ''CancelledError'')"

definition rejects_its_result :: handler_method where
  "rejects_its_result r ctx =
     Inl (ValidationError (JArray [JObject [(''type'', JString ''missing'')]]))"

definition acknowledges :: handler_method where
  "acknowledges r ctx = Inr (RootModel (SuccessRoot \<lparr>sr_id = req_id r, sr_result = PNone\<rparr>))"

definition example_handler :: jsonrpc_handler where
  "example_handler =
     \<lparr>on_message_send = found_task, on_message_send_stream = streams_three,
      on_cancel_task = found_task, on_get_task = found_task,
      on_resubscribe_to_task = streams_three,
      set_push_notification_config = found_task, get_push_notification_config = found_task,
      list_push_notification_config = found_task,
      delete_push_notification_config = found_task\<rparr>"

definition example_app :: jsonrpc_application where
  "example_app =
     \<lparr>handler = example_handler, context_builder = DefaultCallContextBuilder_build\<rparr>"

definition app_with_get_task :: "handler_method \<Rightarrow> jsonrpc_application" where
  "app_with_get_task m = example_app\<lparr>handler := example_handler\<lparr>on_get_task := m\<rparr>\<rparr>"

definition app_with_delete :: "handler_method \<Rightarrow> jsonrpc_application" where
  "app_with_delete m =
     example_app\<lparr>handler := example_handler\<lparr>delete_push_notification_config := m\<rparr>\<rparr>"

definition app_with_stream :: "handler_method \<Rightarrow> jsonrpc_application" where
  "app_with_stream m = example_app\<lparr>handler := example_handler\<lparr>on_message_send_stream := m\<rparr>\<rparr>"

definition post :: "exc + json \<Rightarrow> request" where
  "post outcome =
     \<lparr>request_json = outcome,
      request_user = Inl (Exception ''AuthenticationMiddleware must be installed''),
      request_auth = Inl (Exception ''AuthenticationMiddleware must be installed''),
      request_headers = [(''content-type'', ''application/json'')]\<rparr>"

definition get_task_body :: json where
  "get_task_body =
     JObject [(''id'', JInt 1), (''method'', JString ''tasks/get''),
              (''params'', JObject [(''id'', JString ''t1'')])]"

definition stream_body :: json where
  "stream_body =
     JObject [(''id'', JString ''s-1''), (''method'', JString ''message/stream''),
              (''params'', JObject [(''message'', JObject [])])]"

definition unknown_method_body :: json where
  "unknown_method_body =
     JObject [(''id'', JInt 7), (''method'', JString ''tasks/unknown''),
              (''params'', JObject [])]"

definition delete_config_body :: json where
  "delete_config_body =
     JObject [(''id'', JInt 9), (''method'', JString ''tasks/pushNotificationConfig/delete''),
              (''params'', JObject [(''id'', JString ''t1''),
                                    (''pushNotificationConfigId'', JString ''c1'')])]"

definition missing_params_body :: json where
  "missing_params_body = JObject [(''id'', JString ''r-7''), (''method'', JString ''tasks/get'')]"

section \<open>Properties\<close>

subsection \<open>Serialization\<close>

lemma dump_exclude_none:
  "model_dump True v = model_dump False (omit_none_fields v)"
  "dump_list True vs = dump_list False (omit_list vs)"
  "dump_items True kvs = dump_items False (omit_items kvs)"
  "dump_fields True fs = dump_fields False (omit_fields fs)"
  by (induction v and vs and kvs and fs
      rule: omit_none_fields_omit_list_omit_items_omit_fields.induct) simp_all

lemma omit_none_fields_eq_PNone [simp]: "omit_none_fields v = PNone \<longleftrightarrow> v = PNone"
  by (cases v) simp_all

lemma omit_none_fields_clean:
  "\<not> has_none_field (omit_none_fields v)"
  "\<not> list_has_none_field (omit_list vs)"
  "\<not> items_have_none_field (omit_items kvs)"
  "\<not> fields_have_none (omit_fields fs)"
  by (induction v and vs and kvs and fs
      rule: omit_none_fields_omit_list_omit_items_omit_fields.induct) simp_all

lemma id_value_eq_PNone [simp]: "id_value i = PNone \<longleftrightarrow> i = None"
  by (cases i rule: id_value.cases) simp_all

lemma error_body_members:
  "json_get (model_dump True (error_response_model r)) ''error''
     = Some (model_dump True (error_fields (er_error r)))"
  "json_get (model_dump True (error_response_model r)) ''result'' = None"
  "json_get (model_dump True (error_response_model r)) ''jsonrpc'' = Some (JString ''2.0'')"
  "json_get (model_dump True (error_response_model r)) ''id''
     = (case er_id r of None \<Rightarrow> None | Some i \<Rightarrow> Some (model_dump True (id_value (Some i))))"
  by (simp_all add: json_get_def error_response_model_def error_fields_def split: option.split)

lemma error_fields_code:
  "json_get (model_dump True (error_fields e)) ''code'' = Some (JInt (code e))"
  by (simp add: json_get_def error_fields_def)

lemma error_fields_message:
  "json_get (model_dump True (error_fields e)) ''message'' = Some (JString (message e))"
  by (simp add: json_get_def error_fields_def)

lemma generate_error_response_snd:
  "snd (generate_error_response request_id (A2AError r))
     = JSONResponse (model_dump True (error_response_model
         \<lparr>er_id = request_id, er_error = root_fields r\<rparr>)) 200"
  by (simp add: generate_error_response_def Let_def)

lemma generate_error_response_fst:
  "fst (generate_error_response request_id (A2AError r))
     = [Log (if isinstance_InternalError r then ERROR else WARNING)
          (RequestError request_id (code (root_fields r)) (message (root_fields r))
             (if truthy (data (root_fields r)) then Some (data (root_fields r)) else None))]"
  by (simp add: generate_error_response_def Let_def)

subsection \<open>The event generator\<close>

lemma event_generator_Yield:
  "event_generator (Yield item rest) = Yield (frame_of item) (event_generator rest)"
  by (subst event_generator.code) simp

lemma event_generator_Stop: "event_generator StopAsyncIteration = StopAsyncIteration"
  by (subst event_generator.code) simp

lemma event_generator_Raise: "event_generator (Raise e) = Raise e"
  by (subst event_generator.code) simp

lemmas event_generator_simps = event_generator_Yield event_generator_Stop event_generator_Raise

lemma event_generator_map: "event_generator stream = map_async_generator frame_of stream"
  by (coinduction arbitrary: stream)
     (auto split: async_generator.splits simp: async_generator.map_sel)

lemma emitted_event_generator:
  "emitted n (event_generator stream) = map frame_of (emitted n stream)"
proof (induction n arbitrary: stream)
  case 0
  show ?case by simp
next
  case (Suc n)
  show ?case by (cases stream) (simp_all add: Suc.IH event_generator_simps)
qed

lemma ending_event_generator:
  "ending_after n (event_generator stream) = ending_after n stream"
proof (induction n arbitrary: stream)
  case 0
  show ?case by (cases stream) (simp_all add: event_generator_simps)
next
  case (Suc n)
  show ?case by (cases stream) (simp_all add: Suc.IH event_generator_simps)
qed

text \<open>
  C9. The event stream that \<open>create_response\<close> builds from a handler's async generator is
  the generator mapped item by item through the serialization \<open>frame_of\<close>: for every
  \<open>n\<close>, the first \<open>n\<close> frames are the serializations of the first \<open>n\<close> items, in the same
  order, and the event stream is open, closed or failed exactly where the handler's
  generator is. So no frame is reordered, dropped or added.
\<close>

theorem event_stream_is_mapped_serialization:
  "create_response (AsyncGenerator stream) = Inr (EventSourceResponse (event_generator stream))
   \<and> event_generator stream = map_async_generator frame_of stream
   \<and> emitted n (event_generator stream) = map frame_of (emitted n stream)
   \<and> ending_after n (event_generator stream) = ending_after n stream"
  by (simp add: event_generator_map [symmetric] emitted_event_generator ending_event_generator)

theorem event_stream_is_mapped_serialization_witness:
  "emitted 5 (event_generator (three_events (Some (IdInt 1))))
     = [[(''data'', JObject [(''id'', JInt 1), (''jsonrpc'', JString ''2.0''),
                              (''result'', JObject [(''n'', JInt 1)])])],
        [(''data'', JObject [(''id'', JInt 1), (''jsonrpc'', JString ''2.0''),
                              (''result'', JObject [(''n'', JInt 2)])])],
        [(''data'', JObject [(''id'', JInt 1), (''jsonrpc'', JString ''2.0''),
                              (''result'', JObject [(''n'', JInt 3), (''final'', JBool True)])])]]
   \<and> ending_after 5 (event_generator (three_events (Some (IdInt 1)))) = Closed"
  using event_stream_is_mapped_serialization [of "three_events (Some (IdInt 1))" 5]
  by (simp add: three_events_def frame_of_def success_response_model_def eval_nat_numeral)

subsection \<open>The error translator\<close>

lemma handle_requests_raised:
  "try_body S app request = (request_id, logged, Inl e) \<Longrightarrow>
   handle_requests S app request
     = (logged @ fst (except_clauses request_id e), snd (except_clauses request_id e))"
  by (simp add: handle_requests_def split_beta)

lemma handle_requests_returned:
  "try_body S app request = (request_id, logged, Inr resp) \<Longrightarrow>
   handle_requests S app request = (logged, Inr resp)"
  by (simp add: handle_requests_def)

lemma try_body_unread:
  "request_json request = Inl e \<Longrightarrow> try_body S app request = (None, [], Inl e)"
  by (simp add: try_body_def)

lemma try_body_invalid:
  "request_json request = Inr body \<Longrightarrow> model_validate S body = Inl e \<Longrightarrow>
   try_body S app request = (None, [], Inl e)"
  by (simp add: try_body_def)

lemma except_clauses_snd:
  "snd (except_clauses request_id MethodNotImplementedError)
     = Inr (snd (generate_error_response request_id
                   (A2AError (UnsupportedOperationError None PNone))))"
  "snd (except_clauses request_id (JSONDecodeError str_e))
     = Inr (snd (generate_error_response None (A2AError (JSONParseError (Some str_e) PNone))))"
  "snd (except_clauses request_id (ValidationError e_json))
     = Inr (snd (generate_error_response request_id
                   (A2AError (InvalidRequestError None (json_loads e_json)))))"
  "snd (except_clauses request_id (HTTPException status_code))
     = (if status_code = 413
        then Inr (snd (generate_error_response request_id
                         (A2AError (InvalidRequestError (Some ''Payload too large'') PNone))))
        else Inl (HTTPException status_code))"
  "snd (except_clauses request_id (Exception str_e))
     = Inr (snd (generate_error_response request_id
                   (A2AError (InternalError (Some str_e) PNone))))"
  "snd (except_clauses request_id (BaseException name)) = Inl (BaseException name)"
  by (simp_all add: split_beta HTTP_413_REQUEST_ENTITY_TOO_LARGE_def)

lemma except_clauses_levels:
  "request_error_levels (fst (except_clauses request_id MethodNotImplementedError)) = [WARNING]"
  "request_error_levels (fst (except_clauses request_id (JSONDecodeError str_e))) = [WARNING]"
  "request_error_levels (fst (except_clauses request_id (ValidationError e_json))) = [WARNING]"
  "request_error_levels (fst (except_clauses request_id (HTTPException status_code)))
     = (if status_code = 413 then [WARNING] else [])"
  "request_error_levels (fst (except_clauses request_id (Exception str_e))) = [ERROR]"
  by (simp_all add: split_beta generate_error_response_fst HTTP_413_REQUEST_ENTITY_TOO_LARGE_def)




text \<open>
  C8. When reading the body raises the transport's HTTP exception of status 413,
  \<open>handle_requests\<close> returns (and does not raise) a JSON response of status 200 whose
  error has code \<open>-32600\<close> and message \<open>Payload too large\<close>; the id is \<open>None\<close>, since
  no request has been decoded, and the dumped body has no id member. More generally, when
  that exception leaves the \<^verbatim>\<open>try\<close> body at any stage, the response is the same error with
  the value \<open>request_id\<close> has at that point.
\<close>

theorem oversized_body_invalid_request:
  "(request_json request = Inl (HTTPException 413) \<longrightarrow>
      handle_requests S app request
        = ([Log WARNING (RequestError None (- 32600) ''Payload too large'' None)],
           Inr (JSONResponse
                  (JObject [(''jsonrpc'', JString ''2.0''),
                            (''error'', JObject [(''code'', JInt (- 32600)),
                                                 (''message'', JString ''Payload too large'')])])
                  200)))
   \<and> (try_body S app request = (request_id, logged, Inl (HTTPException 413)) \<longrightarrow>
      snd (handle_requests S app request)
        = Inr (JSONResponse
                 (model_dump True (error_response_model
                    \<lparr>er_id = request_id,
                     er_error = \<lparr>code = - 32600, message = ''Payload too large'',
                                 data = PNone\<rparr>\<rparr>))
                 200)
      \<and> error_code (snd (handle_requests S app request)) = Some (- 32600))"
proof (intro conjI impI)
  assume "request_json request = Inl (HTTPException 413)"
  then have "try_body S app request = (None, [], Inl (HTTPException 413))"
    by (rule try_body_unread)
  then show "handle_requests S app request
        = ([Log WARNING (RequestError None (- 32600) ''Payload too large'' None)],
           Inr (JSONResponse
                  (JObject [(''jsonrpc'', JString ''2.0''),
                            (''error'', JObject [(''code'', JInt (- 32600)),
                                                 (''message'', JString ''Payload too large'')])])
                  200))"
    by (simp add: handle_requests_raised generate_error_response_def
        HTTP_413_REQUEST_ENTITY_TOO_LARGE_def error_response_model_def error_fields_def)
next
  assume raised: "try_body S app request = (request_id, logged, Inl (HTTPException 413))"
  show result: "snd (handle_requests S app request)
        = Inr (JSONResponse
                 (model_dump True (error_response_model
                    \<lparr>er_id = request_id,
                     er_error = \<lparr>code = - 32600, message = ''Payload too large'',
                                 data = PNone\<rparr>\<rparr>))
                 200)"
    by (simp add: handle_requests_raised [OF raised] except_clauses_snd
        generate_error_response_snd del: except_clauses.simps)
  show "error_code (snd (handle_requests S app request)) = Some (- 32600)"
    by (simp add: result error_body_members error_fields_code)
qed

theorem oversized_body_invalid_request_witness:
  "request_json (post (Inl (HTTPException 413))) = Inl (HTTPException 413)
   \<and> handle_requests example_schema example_app (post (Inl (HTTPException 413)))
        = ([Log WARNING (RequestError None (- 32600) ''Payload too large'' None)],
           Inr (JSONResponse
                  (JObject [(''jsonrpc'', JString ''2.0''),
                            (''error'', JObject [(''code'', JInt (- 32600)),
                                                 (''message'', JString ''Payload too large'')])])
                  200))
   \<and> try_body example_schema example_app (post (Inl (HTTPException 413)))
        = (None, [], Inl (HTTPException 413))
   \<and> error_code (snd (handle_requests example_schema example_app
                         (post (Inl (HTTPException 413))))) = Some (- 32600)"
proof -
  have h: "request_json (post (Inl (HTTPException 413))) = Inl (HTTPException 413)"
    by (simp add: post_def)
  have t: "try_body example_schema example_app (post (Inl (HTTPException 413)))
        = (None, [], Inl (HTTPException 413))"
    using h by (rule try_body_unread)
  show ?thesis
    using h t oversized_body_invalid_request
      [of "post (Inl (HTTPException 413))" example_schema example_app None "[]"]
    by (simp add: json_get_def)
qed

subsection \<open>Dispatch of a decoded request\<close>

lemma process_streaming_request_routed:
  "streaming_class (req_class (root a2a_request)) \<Longrightarrow>
   process_streaming_request app request_id a2a_request context
     = ([], case routed (handler app) (req_class (root a2a_request)) (root a2a_request) context of
              Inl e \<Rightarrow> Inl e | Inr handler_result \<Rightarrow> create_response handler_result)"
  by (cases "req_class (root a2a_request)")
     (simp_all add: process_streaming_request_def Let_def split: sum.split)

lemma process_non_streaming_request_routed:
  "\<not> streaming_class (req_class (root a2a_request)) \<Longrightarrow>
   process_non_streaming_request app request_id a2a_request context
     = ([], case routed (handler app) (req_class (root a2a_request)) (root a2a_request) context of
              Inl e \<Rightarrow> Inl e | Inr handler_result \<Rightarrow> create_response handler_result)"
  by (cases "req_class (root a2a_request)")
     (simp_all add: process_non_streaming_request_def Let_def split: sum.split)

lemma try_body_decoded:
  assumes "request_json request = Inr body"
    and "model_validate S body = Inr a2a_request"
    and "context_builder app request = Inr context"
  shows "try_body S app request
     = (req_id (root a2a_request), [],
        case routed (handler app) (req_class (root a2a_request)) (root a2a_request) context of
          Inl e \<Rightarrow> Inl e | Inr handler_result \<Rightarrow> create_response handler_result)"
proof (cases "streaming_class (req_class (root a2a_request))")
  case True
  then have "req_class (root a2a_request) = TaskResubscriptionRequest
      \<or> req_class (root a2a_request) = SendStreamingMessageRequest"
    by (cases "req_class (root a2a_request)") simp_all
  then show ?thesis
    using assms True by (simp add: try_body_def Let_def process_streaming_request_routed)
next
  case False
  then have "\<not> (req_class (root a2a_request) = TaskResubscriptionRequest
      \<or> req_class (root a2a_request) = SendStreamingMessageRequest)"
    by (cases "req_class (root a2a_request)") simp_all
  then show ?thesis
    using assms False by (simp add: try_body_def Let_def process_non_streaming_request_routed)
qed

lemma try_body_cases:
  obtains (raised) request_id e where "try_body S app request = (request_id, [], Inl e)"
  | (returned) request_id resp where "try_body S app request = (request_id, [], Inr resp)"
proof (cases "request_json request")
  case (Inl e)
  then show ?thesis using raised by (simp add: try_body_def)
next
  case body: (Inr body)
  show ?thesis
  proof (cases "model_validate S body")
    case (Inl e)
    then show ?thesis using body raised by (simp add: try_body_def)
  next
    case valid: (Inr a2a_request)
    show ?thesis
    proof (cases "context_builder app request")
      case (Inl e)
      then show ?thesis using body valid raised by (simp add: try_body_def)
    next
      case (Inr ctx)
      show ?thesis
        using raised returned
        by (cases "case routed (handler app) (req_class (root a2a_request)) (root a2a_request)
                          ctx of
                     Inl e \<Rightarrow> Inl e | Inr handler_result \<Rightarrow> create_response handler_result")
           (simp_all add: try_body_decoded [OF body valid Inr])
    qed
  qed
qed

lemma except_clauses_outcome:
  "(\<exists>r. snd (except_clauses request_id e)
          = Inr (snd (generate_error_response (if \<exists>s. e = JSONDecodeError s then None else request_id)
                        (A2AError r))))
   \<or> snd (except_clauses request_id e) = Inl e"
  by (cases e) (auto simp: split_beta HTTP_413_REQUEST_ENTITY_TOO_LARGE_def)

lemma try_body_returned:
  assumes "snd (snd (try_body S app request)) = Inr resp"
  shows "\<exists>handler_result. create_response handler_result = Inr resp"
proof (cases "request_json request")
  case (Inl e)
  then show ?thesis using assms by (simp add: try_body_def)
next
  case body: (Inr body)
  show ?thesis
  proof (cases "model_validate S body")
    case (Inl e)
    then show ?thesis using body assms by (simp add: try_body_def)
  next
    case valid: (Inr a2a_request)
    show ?thesis
    proof (cases "context_builder app request")
      case (Inl e)
      then show ?thesis using body valid assms by (simp add: try_body_def)
    next
      case (Inr ctx)
      show ?thesis
        using assms
        by (auto simp: try_body_decoded [OF body valid Inr] split: sum.splits)
    qed
  qed
qed

lemma create_response_json:
  "create_response handler_result = Inr (JSONResponse content status_code) \<Longrightarrow>
   status_code = 200 \<and> (\<exists>rt. content = model_dump True (root_model rt))"
proof (cases handler_result)
  case (ErrorResponse er)
  assume "create_response handler_result = Inr (JSONResponse content status_code)"
  then have "status_code = 200 \<and> content = model_dump True (root_model (ErrorRoot er))"
    using ErrorResponse by auto
  then show ?thesis by blast
next
  case (RootModel rt)
  assume "create_response handler_result = Inr (JSONResponse content status_code)"
  then have "status_code = 200 \<and> content = model_dump True (root_model rt)"
    using RootModel by auto
  then show ?thesis by blast
qed simp_all

lemma generate_error_response_root:
  "snd (generate_error_response request_id error)
     = JSONResponse (model_dump True (root_model (ErrorRoot
         \<lparr>er_id = request_id,
          er_error = (case error of JSONRPCError e \<Rightarrow> e | A2AError r \<Rightarrow> root_fields r)\<rparr>))) 200"
  by (simp add: generate_error_response_def Let_def)

lemma create_response_stream:
  "create_response handler_result = Inr (EventSourceResponse g) \<Longrightarrow>
   \<exists>stream. handler_result = AsyncGenerator stream \<and> g = event_generator stream"
  by (cases handler_result) auto

lemma request_error_levels_append:
  "request_error_levels (fx @ fx') = request_error_levels fx @ request_error_levels fx'"
  by (induction fx rule: request_error_levels.induct) simp_all

lemmas example_defs =
  example_schema_def example_app_def example_handler_def app_with_get_task_def
  app_with_stream_def app_with_delete_def post_def get_task_body_def stream_body_def
  unknown_method_body_def missing_params_body_def delete_config_body_def found_task_def
  task_not_found_def streams_three_def not_implemented_def breaks_def forbids_def
  cancelled_def rejects_its_result_def acknowledges_def UnicodeDecodeError_def

lemmas pipeline_defs =
  try_body_def model_validate_def method_table_def json_get_def
  DefaultCallContextBuilder_build_def process_non_streaming_request_def
  process_streaming_request_def Let_def




lemma handle_requests_levels:
  assumes "snd (snd (try_body S app request)) = Inl e"
  shows "request_error_levels (fst (handle_requests S app request))
     = request_error_levels (fst (except_clauses (fst (try_body S app request)) e))"
proof (cases rule: try_body_cases [of S app request])
  case (raised request_id e')
  then have "e' = e" and "fst (try_body S app request) = request_id"
    using assms by simp_all
  then show ?thesis
    using handle_requests_raised [OF raised] by simp
next
  case (returned request_id resp)
  then show ?thesis using assms by simp
qed

text \<open>
  C6, as amended. Of the failure categories of the error translator's table, only the
  internal error (any other uncaught exception) has its error response logged at ERROR. The
  responses to a JSON decode error (parse error), to a validation error (invalid request),
  to a method that is not implemented (unsupported operation) and to an oversized body
  (invalid request) are each logged at WARNING.
\<close>

theorem error_response_log_levels:
  "(snd (snd (try_body S app request)) = Inl (JSONDecodeError str_e) \<longrightarrow>
      request_error_levels (fst (handle_requests S app request)) = [WARNING])
   \<and> (snd (snd (try_body S app request)) = Inl (ValidationError e_json) \<longrightarrow>
      request_error_levels (fst (handle_requests S app request)) = [WARNING])
   \<and> (snd (snd (try_body S app request)) = Inl MethodNotImplementedError \<longrightarrow>
      request_error_levels (fst (handle_requests S app request)) = [WARNING])
   \<and> (snd (snd (try_body S app request)) = Inl (HTTPException 413) \<longrightarrow>
      request_error_levels (fst (handle_requests S app request)) = [WARNING])
   \<and> (snd (snd (try_body S app request)) = Inl (Exception str_e') \<longrightarrow>
      request_error_levels (fst (handle_requests S app request)) = [ERROR])"
  by (simp add: handle_requests_levels except_clauses_levels del: except_clauses.simps)

theorem error_response_log_levels_witness:
  "request_error_levels (fst (handle_requests example_schema example_app
       (post (Inl (JSONDecodeError ''Expecting value''))))) = [WARNING]
   \<and> request_error_levels (fst (handle_requests example_schema example_app
       (post (Inr unknown_method_body)))) = [WARNING]
   \<and> request_error_levels (fst (handle_requests example_schema (app_with_get_task not_implemented)
       (post (Inr get_task_body)))) = [WARNING]
   \<and> request_error_levels (fst (handle_requests example_schema example_app
       (post (Inl (HTTPException 413))))) = [WARNING]
   \<and> request_error_levels (fst (handle_requests example_schema (app_with_get_task breaks)
       (post (Inr get_task_body)))) = [ERROR]"
proof -
  have a: "snd (snd (try_body example_schema example_app
       (post (Inl (JSONDecodeError ''Expecting value''))))) = Inl (JSONDecodeError ''Expecting value'')"
    by (simp add: example_defs pipeline_defs)
  have b: "snd (snd (try_body example_schema example_app (post (Inr unknown_method_body))))
       = Inl (ValidationError (errors_json example_schema unknown_method_body))"
    by (simp add: example_defs pipeline_defs)
  have c: "snd (snd (try_body example_schema (app_with_get_task not_implemented)
       (post (Inr get_task_body)))) = Inl MethodNotImplementedError"
    by (simp add: example_defs pipeline_defs)
  have d: "snd (snd (try_body example_schema example_app (post (Inl (HTTPException 413)))))
       = Inl (HTTPException 413)"
    by (simp add: example_defs pipeline_defs)
  have e: "snd (snd (try_body example_schema (app_with_get_task breaks)
       (post (Inr get_task_body)))) = Inl (Exception ''database is down'')"
    by (simp add: example_defs pipeline_defs)
  show ?thesis
    using a b c d e
      error_response_log_levels [of example_schema example_app
        "post (Inl (JSONDecodeError ''Expecting value''))" "''Expecting value''"]
      error_response_log_levels [of example_schema example_app
        "post (Inr unknown_method_body)" _ "errors_json example_schema unknown_method_body"]
      error_response_log_levels [of example_schema "app_with_get_task not_implemented"
        "post (Inr get_task_body)"]
      error_response_log_levels [of example_schema example_app
        "post (Inl (HTTPException 413))"]
      error_response_log_levels [of example_schema "app_with_get_task breaks"
        "post (Inr get_task_body)" _ _ "''database is down''"]
    by simp
qed

text \<open>
  C6 as stated fails: the response to a body that is no JSON, the first category of the
  table, is logged at WARNING, not at ERROR.
\<close>

theorem parse_error_logged_at_warning:
  "fst (handle_requests example_schema example_app
          (post (Inl (JSONDecodeError ''Expecting value''))))
     = [PrintExc, Log WARNING (RequestError None (- 32700) ''Expecting value'' None)]"
  by (simp add: handle_requests_def example_defs pipeline_defs generate_error_response_def)

lemma handle_requests_json:
  assumes "snd (handle_requests S app request) = Inr (JSONResponse content status_code)"
  shows "\<exists>rt. content = model_dump True (root_model rt)"
proof (cases rule: try_body_cases [of S app request])
  case (raised request_id e)
  have result: "snd (handle_requests S app request) = snd (except_clauses request_id e)"
    by (simp add: handle_requests_raised [OF raised])
  from except_clauses_outcome [of request_id e] assms
  obtain request_id' r where
    "content = model_dump True (root_model (ErrorRoot
       \<lparr>er_id = request_id', er_error = root_fields r\<rparr>))"
    by (auto simp: result generate_error_response_root simp del: except_clauses.simps)
  then show ?thesis ..
next
  case (returned request_id resp)
  then have "snd (snd (try_body S app request)) = Inr resp" by simp
  from try_body_returned [OF this] obtain handler_result
    where "create_response handler_result = Inr resp" ..
  moreover have "resp = JSONResponse content status_code"
    using assms handle_requests_returned [OF returned] by simp
  ultimately show ?thesis
    using create_response_json by blast
qed

lemma handle_requests_stream:
  assumes "snd (handle_requests S app request) = Inr (EventSourceResponse g)"
  shows "\<exists>stream. g = event_generator stream"
proof (cases rule: try_body_cases [of S app request])
  case (raised request_id e)
  have result: "snd (handle_requests S app request) = snd (except_clauses request_id e)"
    by (simp add: handle_requests_raised [OF raised])
  from except_clauses_outcome [of request_id e] show ?thesis
    using assms
    by (auto simp: result generate_error_response_snd simp del: except_clauses.simps)
next
  case (returned request_id resp)
  then have "snd (snd (try_body S app request)) = Inr resp" by simp
  from try_body_returned [OF this] obtain handler_result
    where "create_response handler_result = Inr resp" ..
  moreover have "resp = EventSourceResponse g"
    using assms handle_requests_returned [OF returned] by simp
  ultimately show ?thesis
    using create_response_stream by blast
qed

text \<open>
  C10. Every body of a JSON response that \<open>handle_requests\<close> returns is the plain dump of
  a response model (an error response or a success response) with the \<^verbatim>\<open>None\<close>-valued
  fields of its models left out, at every depth; so are the bodies that \<open>create_response\<close>
  and \<open>generate_error_response\<close> build, and the data of each frame of an event stream. A
  value with those fields left out has no \<^verbatim>\<open>None\<close>-valued model field. In particular the
  body of an error response for the request id \<^verbatim>\<open>None\<close> has no \<open>id\<close> member at all.
\<close>

theorem bodies_omit_none_fields:
  "(snd (handle_requests S app request) = Inr (JSONResponse content status_code) \<longrightarrow>
      (\<exists>rt. content = model_dump False (omit_none_fields (root_model rt))))
   \<and> (snd (handle_requests S app request) = Inr (EventSourceResponse g) \<longrightarrow>
      (\<exists>stream. g = map_async_generator frame_of stream))
   \<and> frame_of item = [(''data'', model_dump False (omit_none_fields (root_model item)))]
   \<and> create_response (RootModel rt')
       = Inr (JSONResponse (model_dump False (omit_none_fields (root_model rt'))) 200)
   \<and> create_response (ErrorResponse er)
       = Inr (JSONResponse (model_dump False (omit_none_fields (error_response_model er))) 200)
   \<and> snd (generate_error_response request_id error)
       = JSONResponse (model_dump False (omit_none_fields (error_response_model
           \<lparr>er_id = request_id,
            er_error = (case error of JSONRPCError e \<Rightarrow> e | A2AError r \<Rightarrow> root_fields r)\<rparr>))) 200
   \<and> \<not> has_none_field (omit_none_fields m)
   \<and> json_get (model_dump False (omit_none_fields (error_response_model
                  \<lparr>er_id = None, er_error = e'\<rparr>))) ''id'' = None"
proof (intro conjI impI)
  assume "snd (handle_requests S app request) = Inr (JSONResponse content status_code)"
  from handle_requests_json [OF this]
  show "\<exists>rt. content = model_dump False (omit_none_fields (root_model rt))"
    by (simp add: dump_exclude_none [symmetric])
next
  assume "snd (handle_requests S app request) = Inr (EventSourceResponse g)"
  from handle_requests_stream [OF this]
  show "\<exists>stream. g = map_async_generator frame_of stream"
    by (simp add: event_generator_map)
next
  show "frame_of item = [(''data'', model_dump False (omit_none_fields (root_model item)))]"
    by (simp add: dump_exclude_none [symmetric] frame_of_def)
next
  show "create_response (RootModel rt')
       = Inr (JSONResponse (model_dump False (omit_none_fields (root_model rt'))) 200)"
    by (simp add: dump_exclude_none [symmetric])
next
  show "create_response (ErrorResponse er)
       = Inr (JSONResponse (model_dump False (omit_none_fields (error_response_model er))) 200)"
    by (simp add: dump_exclude_none [symmetric])
next
  show "snd (generate_error_response request_id error)
       = JSONResponse (model_dump False (omit_none_fields (error_response_model
           \<lparr>er_id = request_id,
            er_error = (case error of JSONRPCError e \<Rightarrow> e | A2AError r \<Rightarrow> root_fields r)\<rparr>))) 200"
    by (simp add: dump_exclude_none [symmetric] generate_error_response_def Let_def)
next
  show "\<not> has_none_field (omit_none_fields m)"
    by (rule omit_none_fields_clean)
next
  show "json_get (model_dump False (omit_none_fields (error_response_model
                  \<lparr>er_id = None, er_error = e'\<rparr>))) ''id'' = None"
    by (simp add: dump_exclude_none [symmetric] error_body_members)
qed

theorem bodies_omit_none_fields_witness:
  "snd (handle_requests example_schema example_app (post (Inr get_task_body)))
     = Inr (JSONResponse
              (JObject [(''id'', JInt 1), (''jsonrpc'', JString ''2.0''),
                        (''result'', JObject [(''id'', JString ''t1''),
                                              (''kind'', JString ''task'')])]) 200)
   \<and> (\<exists>rt. JObject [(''id'', JInt 1), (''jsonrpc'', JString ''2.0''),
                      (''result'', JObject [(''id'', JString ''t1''),
                                            (''kind'', JString ''task'')])]
             = model_dump False (omit_none_fields (root_model rt)))
   \<and> snd (handle_requests example_schema example_app (post (Inr stream_body)))
       = Inr (EventSourceResponse (event_generator (three_events (Some (IdStr ''s-1'')))))
   \<and> (\<exists>stream. event_generator (three_events (Some (IdStr ''s-1'')))
          = map_async_generator frame_of stream)
   \<and> snd (generate_error_response None (A2AError (JSONParseError (Some ''Expecting value'') PNone)))
       = JSONResponse
           (JObject [(''jsonrpc'', JString ''2.0''),
                     (''error'', JObject [(''code'', JInt (- 32700)),
                                          (''message'', JString ''Expecting value'')])]) 200"
proof -
  have a: "snd (handle_requests example_schema example_app (post (Inr get_task_body)))
     = Inr (JSONResponse
              (JObject [(''id'', JInt 1), (''jsonrpc'', JString ''2.0''),
                        (''result'', JObject [(''id'', JString ''t1''),
                                              (''kind'', JString ''task'')])]) 200)"
    by (simp add: handle_requests_def example_defs pipeline_defs success_response_model_def)
  have b: "snd (handle_requests example_schema example_app (post (Inr stream_body)))
       = Inr (EventSourceResponse (event_generator (three_events (Some (IdStr ''s-1'')))))"
    by (simp add: handle_requests_def example_defs pipeline_defs)
  from a bodies_omit_none_fields [of example_schema example_app "post (Inr get_task_body)"]
  have a': "\<exists>rt. JObject [(''id'', JInt 1), (''jsonrpc'', JString ''2.0''),
                      (''result'', JObject [(''id'', JString ''t1''),
                                            (''kind'', JString ''task'')])]
             = model_dump False (omit_none_fields (root_model rt))"
    by simp
  from b bodies_omit_none_fields [of example_schema example_app "post (Inr stream_body)"]
  have b': "\<exists>stream. event_generator (three_events (Some (IdStr ''s-1'')))
          = map_async_generator frame_of stream"
    by simp
  from bodies_omit_none_fields
    [where request_id = None
       and error = "A2AError (JSONParseError (Some ''Expecting value'') PNone)"]
  have c: "snd (generate_error_response None
                 (A2AError (JSONParseError (Some ''Expecting value'') PNone)))
       = JSONResponse
           (JObject [(''jsonrpc'', JString ''2.0''),
                     (''error'', JObject [(''code'', JInt (- 32700)),
                                          (''message'', JString ''Expecting value'')])]) 200"
    by (simp add: error_response_model_def error_fields_def)
  show ?thesis using a a' b b' c by simp
qed

subsection \<open>Validation failures\<close>

lemma model_validate_unknown_method:
  "discriminator body = Some m \<Longrightarrow> map_of method_table m = None \<Longrightarrow>
   model_validate S body = Inl (ValidationError (errors_json S body))"
  by (simp add: model_validate_def)

lemma handle_requests_invalid:
  assumes "request_json request = Inr body"
    and "model_validate S body = Inl (ValidationError e_json)"
  shows "handle_requests S app request
     = ([PrintExc,
         Log WARNING (RequestError None (- 32600) ''Request payload validation error''
           (if truthy (json_loads e_json) then Some (json_loads e_json) else None))],
        Inr (JSONResponse
               (model_dump True (error_response_model
                  \<lparr>er_id = None,
                   er_error = \<lparr>code = - 32600, message = ''Request payload validation error'',
                               data = json_loads e_json\<rparr>\<rparr>))
               200))"
proof -
  have "try_body S app request = (None, [], Inl (ValidationError e_json))"
    using assms by (rule try_body_invalid)
  then show ?thesis
    by (simp add: handle_requests_raised generate_error_response_def)
qed

text \<open>
  C2, as amended. For every request whose body is well-formed JSON (reading it returns a
  JSON value) and has a method discriminator that is none of the nine method names,
  \<open>handle_requests\<close> returns (and does not raise) a JSON response of status 200 whose
  \<open>error\<close> member is an invalid-request error: code \<open>-32600\<close>, the message of that
  error class and the validation detail as data; the body has no \<open>result\<close> member. The
  decoder rejects the body, and the \<^verbatim>\<open>ValidationError\<close> clause answers.
\<close>

theorem unknown_method_invalid_request:
  assumes "request_json request = Inr body"
    and "discriminator body = Some m"
    and "map_of method_table m = None"
  shows "\<exists>content. snd (handle_requests S app request) = Inr (JSONResponse content 200)
           \<and> json_get content ''error''
               = Some (model_dump True (error_fields (root_fields
                   (InvalidRequestError None (json_loads (errors_json S body))))))
           \<and> json_get content ''result'' = None
           \<and> error_code (snd (handle_requests S app request)) = Some (- 32600)"
proof -
  have invalid: "model_validate S body = Inl (ValidationError (errors_json S body))"
    using assms(2,3) by (rule model_validate_unknown_method)
  show ?thesis
    by (simp add: handle_requests_invalid [OF assms(1) invalid] error_body_members
        error_fields_code)
qed

theorem unknown_method_invalid_request_witness:
  "request_json (post (Inr unknown_method_body)) = Inr unknown_method_body
   \<and> discriminator unknown_method_body = Some ''tasks/unknown''
   \<and> map_of method_table ''tasks/unknown'' = None
   \<and> (\<exists>content. snd (handle_requests example_schema example_app
                        (post (Inr unknown_method_body))) = Inr (JSONResponse content 200)
         \<and> json_get content ''error''
             = Some (JObject
                [(''code'', JInt (- 32600)),
                 (''message'', JString ''Request payload validation error''),
                 (''data'',
                  JArray
                    [JObject
                       [(''type'', JString ''invalid''),
                        (''input'',
                         JObject [(''id'', JInt 7), (''method'', JString ''tasks/unknown''),
                                  (''params'', JObject [])])]])])
         \<and> json_get content ''result'' = None
         \<and> error_code (snd (handle_requests example_schema example_app
               (post (Inr unknown_method_body)))) = Some (- 32600))"
proof -
  have a: "request_json (post (Inr unknown_method_body)) = Inr unknown_method_body"
    by (simp add: post_def)
  have b: "discriminator unknown_method_body = Some ''tasks/unknown''"
    by (simp add: unknown_method_body_def)
  have c: "map_of method_table ''tasks/unknown'' = None"
    by (simp add: method_table_def)
  have d: "model_dump True (error_fields (root_fields
             (InvalidRequestError None
                (json_loads (errors_json example_schema unknown_method_body)))))
      = JObject
          [(''code'', JInt (- 32600)),
           (''message'', JString ''Request payload validation error''),
           (''data'',
            JArray
              [JObject
                 [(''type'', JString ''invalid''),
                  (''input'',
                   JObject [(''id'', JInt 7), (''method'', JString ''tasks/unknown''),
                            (''params'', JObject [])])]])]"
    by (simp add: example_schema_def unknown_method_body_def error_fields_def)
  from unknown_method_invalid_request [OF a b c, of example_schema example_app]
  have "\<exists>content. snd (handle_requests example_schema example_app
                        (post (Inr unknown_method_body))) = Inr (JSONResponse content 200)
         \<and> json_get content ''error''
             = Some (JObject
                [(''code'', JInt (- 32600)),
                 (''message'', JString ''Request payload validation error''),
                 (''data'',
                  JArray
                    [JObject
                       [(''type'', JString ''invalid''),
                        (''input'',
                         JObject [(''id'', JInt 7), (''method'', JString ''tasks/unknown''),
                                  (''params'', JObject [])])]])])
         \<and> json_get content ''result'' = None
         \<and> error_code (snd (handle_requests example_schema example_app
               (post (Inr unknown_method_body)))) = Some (- 32600)"
    by (simp only: d)
  then show ?thesis using a b c by simp
qed

text \<open>
  C2 as stated fails: the body \<open>{"id": 7, "method": "tasks/unknown", "params": {}}\<close> has
  a method discriminator that is none of the nine, and the response carries the
  invalid-request code \<open>-32600\<close>, which is not the code of an unsupported-operation error.
\<close>

theorem unknown_method_not_unsupported_operation:
  "discriminator unknown_method_body = Some ''tasks/unknown''
   \<and> map_of method_table ''tasks/unknown'' = None
   \<and> error_code (snd (handle_requests example_schema example_app
        (post (Inr unknown_method_body)))) = Some (- 32600)
   \<and> code (root_fields (UnsupportedOperationError None PNone)) \<noteq> - 32600"
  by (simp add: handle_requests_def example_defs pipeline_defs generate_error_response_def
      error_response_model_def error_fields_def)

text \<open>
  C3. The claim is that the invalid-request response to a body that fails validation echoes
  the top-level id of that body. The code does not do so. The body
  \<open>{"id": "r-7", "method": "tasks/get"}\<close> has a top-level id that the decoder itself
  reads as the string \<open>r-7\<close>; it fails validation (the parameters are missing), and the
  invalid-request response has no id member: the \<^verbatim>\<open>ValidationError\<close> clause passes the
  variable \<^verbatim>\<open>request_id\<close>, which is still \<^verbatim>\<open>None\<close>, because it is assigned only after
  the validation. The same clause does echo the id when the validation error is raised
  after that assignment: for the body
  \<open>{"id": 1, "method": "tasks/get", "params": {"id": "t1"}}\<close> and a handler that raises a
  \<^verbatim>\<open>ValidationError\<close>, the invalid-request response carries the id \<open>1\<close>.
\<close>

theorem validation_failure_drops_id:
  "id_field (json_get missing_params_body ''id'') = Some (Some (IdStr ''r-7''))
   \<and> snd (handle_requests example_schema example_app (post (Inr missing_params_body)))
     = Inr (JSONResponse
         (JObject
            [(''jsonrpc'', JString ''2.0''),
             (''error'',
              JObject
                [(''code'', JInt (- 32600)),
                 (''message'', JString ''Request payload validation error''),
                 (''data'',
                  JArray
                    [JObject
                       [(''type'', JString ''invalid''),
                        (''input'',
                         JObject [(''id'', JString ''r-7''),
                                  (''method'', JString ''tasks/get'')])]])])])
         200)
   \<and> snd (handle_requests example_schema (app_with_get_task rejects_its_result)
            (post (Inr get_task_body)))
     = Inr (JSONResponse
         (JObject
            [(''id'', JInt 1), (''jsonrpc'', JString ''2.0''),
             (''error'',
              JObject
                [(''code'', JInt (- 32600)),
                 (''message'', JString ''Request payload validation error''),
                 (''data'', JArray [JObject [(''type'', JString ''missing'')]])])])
         200)"
  by (simp add: handle_requests_def example_defs pipeline_defs generate_error_response_def
      error_response_model_def error_fields_def)

subsection \<open>Rendering of unary outcomes\<close>

lemma handle_requests_decoded:
  assumes "request_json request = Inr body"
    and "model_validate S body = Inr a2a_request"
    and "context_builder app request = Inr ctx"
    and "routed (handler app) (req_class (root a2a_request)) (root a2a_request) ctx
           = Inr handler_result"
    and "create_response handler_result = Inr resp"
  shows "handle_requests S app request = ([], Inr resp)"
  using assms(4,5) by (simp add: handle_requests_def try_body_decoded [OF assms(1,2,3)])

lemma handle_requests_handler_raised:
  assumes "request_json request = Inr body"
    and "model_validate S body = Inr a2a_request"
    and "context_builder app request = Inr ctx"
    and "routed (handler app) (req_class (root a2a_request)) (root a2a_request) ctx = Inl e"
  shows "snd (handle_requests S app request)
           = snd (except_clauses (req_id (root a2a_request)) e)"
  using assms(4)
  by (simp add: handle_requests_def try_body_decoded [OF assms(1,2,3)] split_beta
      del: except_clauses.simps)

lemma success_body_members:
  "json_get (model_dump True (success_response_model r)) ''error'' = None"
  "json_get (model_dump True (success_response_model r)) ''result''
     = (if sr_result r = PNone then None else Some (model_dump True (sr_result r)))"
  by (simp_all add: json_get_def success_response_model_def)

lemma bodies_agree_elsewhere:
  assumes "er_id er = sr_id sr" and "k \<noteq> ''error''" and "k \<noteq> ''result''"
  shows "json_get (model_dump True (error_response_model er)) k
           = json_get (model_dump True (success_response_model sr)) k"
  using assms
  by (simp add: json_get_def error_response_model_def success_response_model_def
      error_fields_def)

text \<open>
  C4, as amended. For a decoded request (in particular one of the seven unary classes) whose
  handler returns an explicit error value, as a \<^verbatim>\<open>JSONRPCErrorResponse\<close> or as the root
  of its response model, \<open>handle_requests\<close> returns a JSON response of status 200 with the
  dump of the error response; when the handler returns a success value, it returns a JSON
  response of the same status 200 with the dump of the success response. The error body has
  the error as its \<open>error\<close> member and no \<open>result\<close> member; the success body has no
  \<open>error\<close> member, and it has the result as its \<open>result\<close> member when the result is
  not \<^verbatim>\<open>None\<close> and no \<open>result\<close> member when it is; for the same request id the two
  bodies agree on every other member.
\<close>

theorem unary_error_and_success_same_status:
  assumes "request_json request = Inr body"
    and "model_validate S body = Inr a2a_request"
    and "context_builder app request = Inr ctx"
  shows "(routed (handler app) (req_class (root a2a_request)) (root a2a_request) ctx
            = Inr (ErrorResponse er)
          \<or> routed (handler app) (req_class (root a2a_request)) (root a2a_request) ctx
            = Inr (RootModel (ErrorRoot er)) \<longrightarrow>
          handle_requests S app request
            = ([], Inr (JSONResponse (model_dump True (error_response_model er)) 200)))
       \<and> (routed (handler app) (req_class (root a2a_request)) (root a2a_request) ctx
            = Inr (RootModel (SuccessRoot sr)) \<longrightarrow>
          handle_requests S app request
            = ([], Inr (JSONResponse (model_dump True (success_response_model sr)) 200)))
       \<and> json_get (model_dump True (error_response_model er)) ''error''
           = Some (model_dump True (error_fields (er_error er)))
       \<and> json_get (model_dump True (error_response_model er)) ''result'' = None
       \<and> json_get (model_dump True (success_response_model sr)) ''error'' = None
       \<and> json_get (model_dump True (success_response_model sr)) ''result''
           = (if sr_result sr = PNone then None else Some (model_dump True (sr_result sr)))
       \<and> (er_id er = sr_id sr \<and> k \<noteq> ''error'' \<and> k \<noteq> ''result'' \<longrightarrow>
            json_get (model_dump True (error_response_model er)) k
              = json_get (model_dump True (success_response_model sr)) k)"
proof (intro conjI impI)
  assume "routed (handler app) (req_class (root a2a_request)) (root a2a_request) ctx
            = Inr (ErrorResponse er)
          \<or> routed (handler app) (req_class (root a2a_request)) (root a2a_request) ctx
            = Inr (RootModel (ErrorRoot er))"
  then show "handle_requests S app request
            = ([], Inr (JSONResponse (model_dump True (error_response_model er)) 200))"
  proof
    assume "routed (handler app) (req_class (root a2a_request)) (root a2a_request) ctx
            = Inr (ErrorResponse er)"
    from handle_requests_decoded [OF assms this] show ?thesis by simp
  next
    assume "routed (handler app) (req_class (root a2a_request)) (root a2a_request) ctx
            = Inr (RootModel (ErrorRoot er))"
    from handle_requests_decoded [OF assms this] show ?thesis by simp
  qed
next
  assume "routed (handler app) (req_class (root a2a_request)) (root a2a_request) ctx
            = Inr (RootModel (SuccessRoot sr))"
  from handle_requests_decoded [OF assms this]
  show "handle_requests S app request
            = ([], Inr (JSONResponse (model_dump True (success_response_model sr)) 200))"
    by simp
next
  show "json_get (model_dump True (error_response_model er)) ''error''
           = Some (model_dump True (error_fields (er_error er)))"
    by (simp add: error_body_members)
next
  show "json_get (model_dump True (error_response_model er)) ''result'' = None"
    by (simp add: error_body_members)
next
  show "json_get (model_dump True (success_response_model sr)) ''error'' = None"
    by (simp add: success_body_members)
next
  show "json_get (model_dump True (success_response_model sr)) ''result''
           = (if sr_result sr = PNone then None else Some (model_dump True (sr_result sr)))"
    by (simp add: success_body_members)
next
  assume "er_id er = sr_id sr \<and> k \<noteq> ''error'' \<and> k \<noteq> ''result''"
  then show "json_get (model_dump True (error_response_model er)) k
              = json_get (model_dump True (success_response_model sr)) k"
    by (simp add: bodies_agree_elsewhere)
qed

lemma get_task_decoded:
  "request_json (post (Inr get_task_body)) = Inr get_task_body"
  "model_validate example_schema get_task_body
     = Inr (A2ARequest \<lparr>req_class = GetTaskRequest, req_id = Some (IdInt 1),
              req_params = Some (JObject [(''id'', JString ''t1'')])\<rparr>)"
  "DefaultCallContextBuilder_build (post (Inr get_task_body))
     = Inr \<lparr>user = UnauthenticatedUser,
            state = [(''headers'', HeadersValue [(''content-type'', ''application/json'')])]\<rparr>"
  by (simp_all add: example_defs pipeline_defs)

lemma stream_decoded:
  "request_json (post (Inr stream_body)) = Inr stream_body"
  "model_validate example_schema stream_body
     = Inr (A2ARequest \<lparr>req_class = SendStreamingMessageRequest, req_id = Some (IdStr ''s-1''),
              req_params = Some (JObject [(''message'', JObject [])])\<rparr>)"
  "DefaultCallContextBuilder_build (post (Inr stream_body))
     = Inr \<lparr>user = UnauthenticatedUser,
            state = [(''headers'', HeadersValue [(''content-type'', ''application/json'')])]\<rparr>"
  by (simp_all add: example_defs pipeline_defs)

theorem unary_error_and_success_same_status_witness:
  "handle_requests example_schema (app_with_get_task task_not_found) (post (Inr get_task_body))
     = ([], Inr (JSONResponse
                   (JObject [(''id'', JInt 1), (''jsonrpc'', JString ''2.0''),
                             (''error'', JObject [(''code'', JInt (- 32001)),
                                                  (''message'', JString ''Task not found'')])])
                   200))
   \<and> handle_requests example_schema (app_with_get_task found_task) (post (Inr get_task_body))
     = ([], Inr (JSONResponse
                   (JObject [(''id'', JInt 1), (''jsonrpc'', JString ''2.0''),
                             (''result'', JObject [(''id'', JString ''t1''),
                                                   (''kind'', JString ''task'')])])
                   200))
   \<and> json_get (JObject [(''id'', JInt 1), (''jsonrpc'', JString ''2.0''),
                         (''error'', JObject [(''code'', JInt (- 32001)),
                                              (''message'', JString ''Task not found'')])]) ''id''
     = json_get (JObject [(''id'', JInt 1), (''jsonrpc'', JString ''2.0''),
                          (''result'', JObject [(''id'', JString ''t1''),
                                                (''kind'', JString ''task'')])]) ''id''"
proof -
  let ?er = "\<lparr>er_id = Some (IdInt 1),
               er_error = root_fields (OtherA2AError (- 32001) ''Task not found'' PNone)\<rparr>"
  let ?sr = "\<lparr>sr_id = Some (IdInt 1),
               sr_result = PModel [(''id'', PStr ''t1''), (''contextId'', PNone),
                                   (''kind'', PStr ''task'')]\<rparr>"
  let ?r = "\<lparr>req_class = GetTaskRequest, req_id = Some (IdInt 1),
              req_params = Some (JObject [(''id'', JString ''t1'')])\<rparr>"
  let ?ctx = "\<lparr>user = UnauthenticatedUser,
            state = [(''headers'', HeadersValue [(''content-type'', ''application/json'')])]\<rparr>"
  have ctx1: "context_builder (app_with_get_task task_not_found) (post (Inr get_task_body))
      = Inr ?ctx"
    by (simp add: app_with_get_task_def example_app_def get_task_decoded)
  have ctx2: "context_builder (app_with_get_task found_task) (post (Inr get_task_body))
      = Inr ?ctx"
    by (simp add: app_with_get_task_def example_app_def get_task_decoded)
  have r1: "routed (handler (app_with_get_task task_not_found))
              (req_class (root (A2ARequest ?r))) (root (A2ARequest ?r)) ?ctx
            = Inr (RootModel (ErrorRoot ?er))"
    by (simp add: app_with_get_task_def task_not_found_def)
  have r2: "routed (handler (app_with_get_task found_task))
              (req_class (root (A2ARequest ?r))) (root (A2ARequest ?r)) ?ctx
            = Inr (RootModel (SuccessRoot ?sr))"
    by (simp add: app_with_get_task_def found_task_def)
  have e: "model_dump True (error_response_model ?er)
      = JObject [(''id'', JInt 1), (''jsonrpc'', JString ''2.0''),
                 (''error'', JObject [(''code'', JInt (- 32001)),
                                      (''message'', JString ''Task not found'')])]"
    by (simp add: error_response_model_def error_fields_def)
  have s: "model_dump True (success_response_model ?sr)
      = JObject [(''id'', JInt 1), (''jsonrpc'', JString ''2.0''),
                 (''result'', JObject [(''id'', JString ''t1''), (''kind'', JString ''task'')])]"
    by (simp add: success_response_model_def)
  from unary_error_and_success_same_status
         [OF get_task_decoded(1) get_task_decoded(2) ctx1, of ?er ?sr "''id''"] r1
  have first: "handle_requests example_schema (app_with_get_task task_not_found)
        (post (Inr get_task_body))
      = ([], Inr (JSONResponse (model_dump True (error_response_model ?er)) 200))"
    and same_id: "json_get (model_dump True (error_response_model ?er)) ''id''
      = json_get (model_dump True (success_response_model ?sr)) ''id''"
    by simp_all
  from unary_error_and_success_same_status
         [OF get_task_decoded(1) get_task_decoded(2) ctx2, of ?er ?sr "''id''"] r2
  have second: "handle_requests example_schema (app_with_get_task found_task)
        (post (Inr get_task_body))
      = ([], Inr (JSONResponse (model_dump True (success_response_model ?sr)) 200))"
    by simp
  show ?thesis
    using first second same_id by (simp only: e s)
qed

text \<open>
  C4 as stated fails in its second part: a success value need not give a body with a
  \<open>result\<close> member. For the body
  \<open>{"id": 9, "method": "tasks/pushNotificationConfig/delete", "params": {...}}\<close> and a
  handler that answers the deletion with a success response whose result is \<^verbatim>\<open>None\<close>,
  the response has status 200 and the body \<open>{"id": 9, "jsonrpc": "2.0"}\<close>, with neither a
  \<open>result\<close> nor an \<open>error\<close> member.
\<close>

theorem none_result_body_has_no_result:
  "handle_requests example_schema (app_with_delete acknowledges) (post (Inr delete_config_body))
     = ([], Inr (JSONResponse (JObject [(''id'', JInt 9), (''jsonrpc'', JString ''2.0'')]) 200))
   \<and> json_get (JObject [(''id'', JInt 9), (''jsonrpc'', JString ''2.0'')]) ''result'' = None
   \<and> json_get (JObject [(''id'', JInt 9), (''jsonrpc'', JString ''2.0'')]) ''error'' = None"
  by (simp add: handle_requests_def example_defs pipeline_defs success_response_model_def)

subsection \<open>Response mode\<close>

lemma is_event_stream_create_response:
  "is_event_stream (create_response handler_result) = is_async_generator handler_result"
  by (cases handler_result) simp_all

lemma is_json_body_create_response:
  "\<not> is_async_generator handler_result \<Longrightarrow> handler_result \<noteq> NoneResult \<Longrightarrow>
   is_json_body (create_response handler_result)"
  by (cases handler_result) simp_all

lemma except_clauses_no_stream: "\<not> is_event_stream (snd (except_clauses request_id e))"
  by (cases e) (simp_all add: split_beta generate_error_response_def Let_def)

text \<open>
  C5, as amended. For a decoded request, the response mode follows the outcome of the routed
  handler call: \<open>handle_requests\<close> returns an event stream exactly when the call returned an
  async generator. So when the call returns (it does not raise) a result of the shape of
  its class, an async generator for \<^verbatim>\<open>SendStreamingMessageRequest\<close> and
  \<^verbatim>\<open>TaskResubscriptionRequest\<close> and a response model for the other seven classes, the
  response is an event stream if and only if the class is one of those two, and for each of
  the other seven it is one JSON response of status 200.
\<close>

theorem response_mode_follows_handler_outcome:
  assumes "request_json request = Inr body"
    and "model_validate S body = Inr a2a_request"
    and "context_builder app request = Inr ctx"
  shows "(is_event_stream (snd (handle_requests S app request)) \<longleftrightarrow>
            (\<exists>stream. routed (handler app) (req_class (root a2a_request)) (root a2a_request) ctx
                        = Inr (AsyncGenerator stream)))
       \<and> (routed (handler app) (req_class (root a2a_request)) (root a2a_request) ctx
             = Inr handler_result
           \<and> handler_result \<noteq> NoneResult
           \<and> (is_async_generator handler_result
                \<longleftrightarrow> streaming_class (req_class (root a2a_request))) \<longrightarrow>
           (is_event_stream (snd (handle_requests S app request))
              \<longleftrightarrow> streaming_class (req_class (root a2a_request)))
           \<and> (\<not> streaming_class (req_class (root a2a_request)) \<longrightarrow>
                is_json_body (snd (handle_requests S app request))))"
proof (intro conjI impI)
  show "is_event_stream (snd (handle_requests S app request)) \<longleftrightarrow>
            (\<exists>stream. routed (handler app) (req_class (root a2a_request)) (root a2a_request) ctx
                        = Inr (AsyncGenerator stream))"
  proof (cases "routed (handler app) (req_class (root a2a_request)) (root a2a_request) ctx")
    case (Inl e)
    show ?thesis
      by (simp add: handle_requests_handler_raised [OF assms Inl] Inl except_clauses_no_stream
          del: except_clauses.simps)
  next
    case (Inr r)
    show ?thesis
    proof (cases "create_response r")
      case raised: (Inl e)
      then have "r = NoneResult" by (cases r) simp_all
      moreover have "snd (handle_requests S app request)
          = snd (except_clauses (req_id (root a2a_request)) e)"
        using Inr raised
        by (simp add: handle_requests_def try_body_decoded [OF assms] split_beta
            del: except_clauses.simps)
      ultimately show ?thesis
        by (simp add: Inr except_clauses_no_stream del: except_clauses.simps)
    next
      case returned: (Inr resp)
      have "is_event_stream (Inr resp) = is_async_generator r"
        using is_event_stream_create_response [of r] returned by simp
      then show ?thesis
        using handle_requests_decoded [OF assms Inr returned] Inr
        by (cases r) simp_all
    qed
  qed
next
  assume h: "routed (handler app) (req_class (root a2a_request)) (root a2a_request) ctx
             = Inr handler_result
           \<and> handler_result \<noteq> NoneResult
           \<and> (is_async_generator handler_result
                \<longleftrightarrow> streaming_class (req_class (root a2a_request)))"
  then obtain resp where resp: "create_response handler_result = Inr resp"
    by (cases handler_result) simp_all
  have result: "snd (handle_requests S app request) = create_response handler_result"
    using handle_requests_decoded [OF assms _ resp] h resp by simp
  show "is_event_stream (snd (handle_requests S app request))
              \<longleftrightarrow> streaming_class (req_class (root a2a_request))"
    using h by (simp add: result is_event_stream_create_response)
  assume "\<not> streaming_class (req_class (root a2a_request))"
  then show "is_json_body (snd (handle_requests S app request))"
    using h by (simp add: result is_json_body_create_response)
qed

theorem response_mode_follows_handler_outcome_witness:
  "is_event_stream (snd (handle_requests example_schema example_app (post (Inr stream_body))))
   \<and> streaming_class SendStreamingMessageRequest
   \<and> \<not> is_event_stream (snd (handle_requests example_schema example_app
                                 (post (Inr get_task_body))))
   \<and> is_json_body (snd (handle_requests example_schema example_app (post (Inr get_task_body))))
   \<and> \<not> streaming_class GetTaskRequest"
proof -
  let ?ctx = "\<lparr>user = UnauthenticatedUser,
            state = [(''headers'', HeadersValue [(''content-type'', ''application/json'')])]\<rparr>"
  let ?s = "\<lparr>req_class = SendStreamingMessageRequest, req_id = Some (IdStr ''s-1''),
              req_params = Some (JObject [(''message'', JObject [])])\<rparr>"
  let ?r = "\<lparr>req_class = GetTaskRequest, req_id = Some (IdInt 1),
              req_params = Some (JObject [(''id'', JString ''t1'')])\<rparr>"
  have ctx1: "context_builder example_app (post (Inr stream_body)) = Inr ?ctx"
    by (simp add: example_app_def stream_decoded)
  have ctx2: "context_builder example_app (post (Inr get_task_body)) = Inr ?ctx"
    by (simp add: example_app_def get_task_decoded)
  have r1: "routed (handler example_app) (req_class (root (A2ARequest ?s)))
              (root (A2ARequest ?s)) ?ctx
            = Inr (AsyncGenerator (three_events (Some (IdStr ''s-1''))))"
    by (simp add: example_app_def example_handler_def streams_three_def)
  have r2: "routed (handler example_app) (req_class (root (A2ARequest ?r)))
              (root (A2ARequest ?r)) ?ctx
            = Inr (RootModel (SuccessRoot
                \<lparr>sr_id = Some (IdInt 1),
                 sr_result = PModel [(''id'', PStr ''t1''), (''contextId'', PNone),
                                     (''kind'', PStr ''task'')]\<rparr>))"
    by (simp add: example_app_def example_handler_def found_task_def)
  from response_mode_follows_handler_outcome
         [OF stream_decoded(1) stream_decoded(2) ctx1,
          of "AsyncGenerator (three_events (Some (IdStr ''s-1'')))"] r1
  have first: "is_event_stream (snd (handle_requests example_schema example_app
      (post (Inr stream_body))))"
    by simp
  from response_mode_follows_handler_outcome
         [OF get_task_decoded(1) get_task_decoded(2) ctx2,
          of "RootModel (SuccessRoot
                \<lparr>sr_id = Some (IdInt 1),
                 sr_result = PModel [(''id'', PStr ''t1''), (''contextId'', PNone),
                                     (''kind'', PStr ''task'')]\<rparr>)"] r2
  have second: "\<not> is_event_stream (snd (handle_requests example_schema example_app
        (post (Inr get_task_body))))"
    and third: "is_json_body (snd (handle_requests example_schema example_app
        (post (Inr get_task_body))))"
    by simp_all
  show ?thesis using first second third by simp
qed

text \<open>
  C5 as stated fails: the body \<open>{"id": "s-1", "method": "message/stream", ...}\<close> decodes to
  a \<^verbatim>\<open>SendStreamingMessageRequest\<close>; with a handler whose streaming method raises
  \<^verbatim>\<open>MethodNotImplementedError\<close> when it is called, the response is a JSON response of
  status 200 and no event stream.
\<close>

theorem unimplemented_stream_answers_json:
  "model_validate example_schema stream_body
     = Inr (A2ARequest \<lparr>req_class = SendStreamingMessageRequest, req_id = Some (IdStr ''s-1''),
              req_params = Some (JObject [(''message'', JObject [])])\<rparr>)
   \<and> \<not> is_event_stream (snd (handle_requests example_schema (app_with_stream not_implemented)
                                 (post (Inr stream_body))))
   \<and> is_json_body (snd (handle_requests example_schema (app_with_stream not_implemented)
                          (post (Inr stream_body))))"
  by (simp add: handle_requests_def example_defs pipeline_defs generate_error_response_def)

end
